theory Spec2Isabelle
  imports Complex_Main "HOL-Library.Sublist"
begin

section \<open>The platform the decoders run on\<close>

text \<open>
  \<^verbatim>\<open>src/utils/xmlUtils.ts\<close> decodes document metadata from XML text. It relies on three
  collaborators that are not part of the repository: the DOM built by the XML parser
  (\<^verbatim>\<open>@xmldom/xmldom\<close>), the ECMAScript conversion \<^verbatim>\<open>Number(text)\<close>, and the
  ECMAScript \<^verbatim>\<open>Date\<close> constructor on a string. The DOM interface and \<^verbatim>\<open>Number\<close> are
  modelled here from their standards; the parser itself and the date grammar (which
  ECMAScript leaves to the implementation outside one ISO format, and which depends on
  the local time zone) are parameters of the model, collected in the record \<open>host\<close>.

  A JavaScript string is modelled as a \<^typ>\<open>string\<close>, one \<^typ>\<open>char\<close> per code unit, so
  the model covers the code units below 256 (Latin-1).
\<close>

subsection \<open>Strings\<close>

definition upperCaseLetters :: string where
  "upperCaseLetters = ''ABCDEFGHIJKLMNOPQRSTUVWXYZ'' @
     [CHR 0xC0, CHR 0xC1, CHR 0xC2, CHR 0xC3, CHR 0xC4, CHR 0xC5, CHR 0xC6, CHR 0xC7,
      CHR 0xC8, CHR 0xC9, CHR 0xCA, CHR 0xCB, CHR 0xCC, CHR 0xCD, CHR 0xCE, CHR 0xCF,
      CHR 0xD0, CHR 0xD1, CHR 0xD2, CHR 0xD3, CHR 0xD4, CHR 0xD5, CHR 0xD6,
      CHR 0xD8, CHR 0xD9, CHR 0xDA, CHR 0xDB, CHR 0xDC, CHR 0xDD, CHR 0xDE]"

definition lowerCaseLetters :: string where
  "lowerCaseLetters = ''abcdefghijklmnopqrstuvwxyz'' @
     [CHR 0xE0, CHR 0xE1, CHR 0xE2, CHR 0xE3, CHR 0xE4, CHR 0xE5, CHR 0xE6, CHR 0xE7,
      CHR 0xE8, CHR 0xE9, CHR 0xEA, CHR 0xEB, CHR 0xEC, CHR 0xED, CHR 0xEE, CHR 0xEF,
      CHR 0xF0, CHR 0xF1, CHR 0xF2, CHR 0xF3, CHR 0xF4, CHR 0xF5, CHR 0xF6,
      CHR 0xF8, CHR 0xF9, CHR 0xFA, CHR 0xFB, CHR 0xFC, CHR 0xFD, CHR 0xFE]"

definition toLowerCaseChar :: "char \<Rightarrow> char" where
  "toLowerCaseChar c =
     (case map_of (zip upperCaseLetters lowerCaseLetters) c of None \<Rightarrow> c | Some l \<Rightarrow> l)"

text \<open>\<^verbatim>\<open>String.prototype.toLowerCase\<close>, on code units below 256.\<close>

definition toLowerCase :: "string \<Rightarrow> string" where
  "toLowerCase s = map toLowerCaseChar s"

text \<open>
  \<^verbatim>\<open>RegExp.prototype.test\<close> for the four patterns of the source. Each is an alternation
  of literal words with no anchor and no flag, so the test holds when one of the words
  occurs somewhere in the subject; the character class \<^verbatim>\<open>[1248]\<close> is written out.
\<close>

fun regexTest :: "string list \<Rightarrow> string \<Rightarrow> bool" where
  "regexTest alts [] = list_ex (\<lambda>a. a = []) alts"
| "regexTest alts (c # cs) = (list_ex (\<lambda>a. prefix a (c # cs)) alts \<or> regexTest alts cs)"

definition stringPattern :: "string list" where
  "stringPattern = [''vt:lpwstr'', ''vt:lpstr'', ''vt:bstr'']"

definition boolPattern :: "string list" where
  "boolPattern = [''vt:bool'']"

definition numberPattern :: "string list" where
  "numberPattern =
     [''vt:i1'', ''vt:i2'', ''vt:i4'', ''vt:i8'', ''vt:ui1'', ''vt:ui2'', ''vt:ui4'', ''vt:ui8'',
      ''vt:int'', ''vt:uint'', ''vt:r4'', ''vt:r8'', ''vt:decimal'']"

definition datePattern :: "string list" where
  "datePattern = [''vt:filetime'', ''vt:date'']"

subsection \<open>Numbers: \<^verbatim>\<open>Number(text)\<close> and \<^verbatim>\<open>isNaN\<close>\<close>

text \<open>
  A Number is NaN, an infinity (the flag is the sign: \<open>True\<close> for negative) or a finite
  value. A finite value is kept as the exact rational the literal denotes; the rounding
  of that rational to a double and the sign of zero are not modelled. No claim depends
  on either: rounding never turns a value into NaN or NaN into a value.
\<close>

datatype number = NaN | Infinity bool | Finite rat

definition isNaN :: "number \<Rightarrow> bool" where
  "isNaN n = (n = NaN)"

text \<open>\<^verbatim>\<open>StrWhiteSpaceChar\<close>: TAB, LF, VT, FF, CR, SP and NBSP are the ones below 256.\<close>

definition isStrWhiteSpaceChar :: "char \<Rightarrow> bool" where
  "isStrWhiteSpaceChar c =
     (c \<in> set [CHR 0x09, CHR 0x0A, CHR 0x0B, CHR 0x0C, CHR 0x0D, CHR 0x20, CHR 0xA0])"

definition trimString :: "string \<Rightarrow> string" where
  "trimString s = rev (dropWhile isStrWhiteSpaceChar (rev (dropWhile isStrWhiteSpaceChar s)))"

definition digitValue :: "char \<Rightarrow> nat option" where
  "digitValue c = map_of
     [(CHR ''0'', 0), (CHR ''1'', 1), (CHR ''2'', 2), (CHR ''3'', 3), (CHR ''4'', 4),
      (CHR ''5'', 5), (CHR ''6'', 6), (CHR ''7'', 7), (CHR ''8'', 8), (CHR ''9'', 9),
      (CHR ''a'', 10), (CHR ''b'', 11), (CHR ''c'', 12), (CHR ''d'', 13), (CHR ''e'', 14),
      (CHR ''f'', 15), (CHR ''A'', 10), (CHR ''B'', 11), (CHR ''C'', 12), (CHR ''D'', 13),
      (CHR ''E'', 14), (CHR ''F'', 15)] c"

definition isDigit :: "nat \<Rightarrow> char \<Rightarrow> bool" where
  "isDigit radix c = (case digitValue c of None \<Rightarrow> False | Some v \<Rightarrow> v < radix)"

definition digitsValue :: "nat \<Rightarrow> string \<Rightarrow> nat" where
  "digitsValue radix ds =
     foldl (\<lambda>acc c. acc * radix + (case digitValue c of None \<Rightarrow> 0 | Some v \<Rightarrow> v)) 0 ds"

text \<open>\<^verbatim>\<open>NonDecimalIntegerLiteral\<close>: \<^verbatim>\<open>0x\<close>, \<^verbatim>\<open>0o\<close> or \<^verbatim>\<open>0b\<close> and at least one digit.\<close>

definition nonDecimalIntegerLiteral :: "string \<Rightarrow> nat option" where
  "nonDecimalIntegerLiteral t =
     (case t of
        c0 # c1 # ds \<Rightarrow>
          (let radix = (if c1 = CHR ''x'' \<or> c1 = CHR ''X'' then 16
                        else if c1 = CHR ''o'' \<or> c1 = CHR ''O'' then 8
                        else if c1 = CHR ''b'' \<or> c1 = CHR ''B'' then 2 else 0)
           in if c0 = CHR ''0'' \<and> radix \<noteq> 0 \<and> ds \<noteq> [] \<and> list_all (isDigit radix) ds
              then Some (digitsValue radix ds) else None)
      | _ \<Rightarrow> None)"

text \<open>\<^verbatim>\<open>ExponentPart\<close>, which must use up the rest of the literal: the exponent read.\<close>

definition exponentPart :: "string \<Rightarrow> int option" where
  "exponentPart r =
     (case r of
        [] \<Rightarrow> Some 0
      | c # s \<Rightarrow>
          if c = CHR ''e'' \<or> c = CHR ''E'' then
            (let (neg, ds) = (case s of
                                [] \<Rightarrow> (False, s)
                              | d # s' \<Rightarrow> if d = CHR ''-'' then (True, s')
                                          else if d = CHR ''+'' then (False, s') else (False, s))
             in if ds \<noteq> [] \<and> list_all (isDigit 10) ds
                then Some (if neg then - int (digitsValue 10 ds) else int (digitsValue 10 ds))
                else None)
          else None)"

text \<open>\<^verbatim>\<open>StrDecimalLiteral\<close>: a sign, then \<^verbatim>\<open>Infinity\<close> or digits with an optional
  fraction and exponent; at least one digit before or after the point.\<close>

definition strDecimalLiteral :: "string \<Rightarrow> number" where
  "strDecimalLiteral t =
     (let (neg, u) = (case t of
                        [] \<Rightarrow> (False, t)
                      | c # r \<Rightarrow> if c = CHR ''-'' then (True, r)
                                 else if c = CHR ''+'' then (False, r) else (False, t))
      in if u = ''Infinity'' then Infinity neg
         else
           (let ip = takeWhile (isDigit 10) u;
                r1 = dropWhile (isDigit 10) u;
                (fp, r2) = (case r1 of
                              [] \<Rightarrow> ([], r1)
                            | c # r \<Rightarrow> if c = CHR ''.''
                                       then (takeWhile (isDigit 10) r, dropWhile (isDigit 10) r)
                                       else ([], r1))
            in if ip = [] \<and> fp = [] then NaN
               else (case exponentPart r2 of
                       None \<Rightarrow> NaN
                     | Some e \<Rightarrow>
                         (let m = of_nat (digitsValue 10 ip)
                                  + of_nat (digitsValue 10 fp) / 10 ^ length fp;
                              v = (if 0 \<le> e then m * 10 ^ nat e else m / 10 ^ nat (- e))
                          in Finite (if neg then - v else v)))))"

text \<open>
  \<^verbatim>\<open>Number(text)\<close> on a string (\<^verbatim>\<open>StringToNumber\<close>): white space is trimmed on both
  sides, the empty literal is 0, and anything outside the grammar is NaN.
\<close>

definition Number :: "string \<Rightarrow> number" where
  "Number s =
     (let t = trimString s
      in if t = [] then Finite 0
         else (case nonDecimalIntegerLiteral t of
                 Some n \<Rightarrow> Finite (of_nat n)
               | None \<Rightarrow> strDecimalLiteral t))"

subsection \<open>Dates\<close>

text \<open>
  A \<^verbatim>\<open>Date\<close> object holds a time value, milliseconds since the epoch, or NaN when the
  text did not parse (an invalid date): \<open>None\<close> here.
\<close>

datatype date = Date (getTime: "int option")

subsection \<open>The DOM\<close>

datatype node =
    Element string "(string \<times> string) list" "node list"
  | TextNode string
  | CDATASection string
  | Comment string
  | ProcessingInstruction string string

datatype document = Document "node list"

fun nodeType :: "node \<Rightarrow> nat" where
  "nodeType (Element t as cs) = 1"
| "nodeType (TextNode d) = 3"
| "nodeType (CDATASection d) = 4"
| "nodeType (ProcessingInstruction t d) = 7"
| "nodeType (Comment d) = 8"

fun tagName :: "node \<Rightarrow> string" where
  "tagName (Element t as cs) = t"
| "tagName _ = []"

fun childNodes :: "node \<Rightarrow> node list" where
  "childNodes (Element t as cs) = cs"
| "childNodes _ = []"

text \<open>\<^verbatim>\<open>getAttribute\<close>: the value of the attribute, \<open>None\<close> for \<^verbatim>\<open>null\<close> when there is none.
  The source only tests the result for truthiness, so a DOM that answers the empty
  string for a missing attribute behaves the same.\<close>

fun getAttribute :: "node \<Rightarrow> string \<Rightarrow> string option" where
  "getAttribute (Element t as cs) name = map_of as name"
| "getAttribute _ name = None"

text \<open>\<^verbatim>\<open>textContent\<close>: the text of all descendants in document order, comments and
  processing instructions left out.\<close>

fun textContent :: "node \<Rightarrow> string" where
  "textContent (Element t as cs) =
     concat (map textContent (filter (\<lambda>c. nodeType c \<noteq> 7 \<and> nodeType c \<noteq> 8) cs))"
| "textContent (TextNode d) = d"
| "textContent (CDATASection d) = d"
| "textContent (Comment d) = d"
| "textContent (ProcessingInstruction t d) = d"

text \<open>An element followed by the elements below it, in document order.\<close>

fun elements :: "node \<Rightarrow> node list" where
  "elements (Element t as cs) = Element t as cs # concat (map elements cs)"
| "elements _ = []"

record host =
  parseFromString :: "string \<Rightarrow> document option"
  Date_parse :: "string \<Rightarrow> int option"

text \<open>\<^verbatim>\<open>new Date(text)\<close>.\<close>

definition newDate :: "host \<Rightarrow> string \<Rightarrow> date" where
  "newDate h s = Date (Date_parse h s)"

section \<open>\<^verbatim>\<open>xmlUtils.ts\<close>\<close>

text \<open>
  \<^verbatim>\<open>parseXmlString\<close> hands the text to the parser. The source has no handler around the
  call, so a parser that raises, or yields no document, ends the caller too: \<open>None\<close>.
\<close>

definition parseXmlString :: "host \<Rightarrow> string \<Rightarrow> document option" where
  "parseXmlString h xml = parseFromString h xml"

text \<open>
  \<^verbatim>\<open>getElementsByTagName\<close> on an element (\<open>Inl\<close>) or on the document (\<open>Inr\<close>): the elements
  strictly below the base whose tag is the one asked for, in document order. The DOM
  reads the name \<^verbatim>\<open>*\<close> as a wildcard.
\<close>

definition getElementsByTagName :: "node + document \<Rightarrow> string \<Rightarrow> node list" where
  "getElementsByTagName element name =
     filter (\<lambda>n. name = ''*'' \<or> tagName n = name)
       (concat (map elements (case element of
                                Inl e \<Rightarrow> childNodes e
                              | Inr (Document cs) \<Rightarrow> cs)))"

subsection \<open>Decoded values and the metadata record\<close>

text \<open>
  The values of a property map, \<^verbatim>\<open>string | number | boolean | Date\<close>. A property map
  \<^verbatim>\<open>Record<string, ...>\<close> is modelled by the properties of the object's own, a partial
  map from names to values: they are what \<^verbatim>\<open>Object.keys\<close> and \<^verbatim>\<open>Object.entries\<close> list, and
  \<^verbatim>\<open>Object.keys(obj).length > 0\<close> is \<open>dom obj \<noteq> {}\<close>.
\<close>

datatype typedValue = VString string | VNumber number | VBoolean bool | VDate date

type_synonym properties = "string \<rightharpoonup> typedValue"

text \<open>
  The assignment \<^verbatim>\<open>obj[name] = v\<close> on an object made by the literal \<^verbatim>\<open>{}\<close> (lines 167 and
  220). Such an object inherits from \<^verbatim>\<open>Object.prototype\<close>, whose only accessor is
  \<^verbatim>\<open>__proto__\<close>: an assignment under that name runs the inherited setter, which ignores
  a string, a number or a boolean and takes a \<^verbatim>\<open>Date\<close> as the new prototype, and in
  neither case gives the object a property of its own. Under every other name the
  assignment creates the property or replaces its value.
\<close>

definition assignProperty :: "properties \<Rightarrow> string \<Rightarrow> typedValue \<Rightarrow> properties" where
  "assignProperty obj name v = (if name = ''__proto__'' then obj else obj(name \<mapsto> v))"

text \<open>
  Modelled from the spec: the type \<^verbatim>\<open>OfficeMetadata\<close> of \<^verbatim>\<open>src/types\<close>, which is not among
  the sources. The fields are the ones \<^verbatim>\<open>parseOfficeMetadata\<close> assigns, named as it
  names them, each optional (\<open>None\<close>: the field is absent).
\<close>

record officeMetadata =
  title :: "string option"
  author :: "string option"
  lastModifiedBy :: "string option"
  created :: "date option"
  modified :: "date option"
  description :: "string option"
  subject :: "string option"
  customProperties :: "properties option"

text \<open>The object literal \<^verbatim>\<open>{}\<close> of line 108.\<close>

definition emptyMetadata :: officeMetadata where
  "emptyMetadata =
     \<lparr>title = None, author = None, lastModifiedBy = None, created = None, modified = None,
      description = None, subject = None, customProperties = None\<rparr>"

text \<open>\<^verbatim>\<open>xs[0]\<close>: the first item, \<^verbatim>\<open>undefined\<close> (\<open>None\<close>) on an empty array.\<close>

definition item0 :: "'a list \<Rightarrow> 'a option" where
  "item0 xs = (case xs of [] \<Rightarrow> None | x # _ \<Rightarrow> Some x)"

text \<open>The guard \<^verbatim>\<open>el && el.textContent\<close>: the text to assign, when the element exists
  and its text is not empty.\<close>

definition truthyText :: "node option \<Rightarrow> string option" where
  "truthyText el =
     (case el of
        None \<Rightarrow> None
      | Some e \<Rightarrow> if textContent e = [] then None else Some (textContent e))"

subsection \<open>\<^verbatim>\<open>parseOfficeMetadata\<close>\<close>

text \<open>Lines 113 to 138: the fields read below the \<^verbatim>\<open>cp:coreProperties\<close> element.\<close>

definition corePropertiesFields :: "host \<Rightarrow> node \<Rightarrow> officeMetadata \<Rightarrow> officeMetadata" where
  "corePropertiesFields h coreProperties metadata =
     (let first = (\<lambda>tag. item0 (getElementsByTagName (Inl coreProperties) tag));
          metadata = (case truthyText (first ''dc:title'') of
                        None \<Rightarrow> metadata | Some t \<Rightarrow> metadata\<lparr>title := Some t\<rparr>);
          metadata = (case truthyText (first ''dc:creator'') of
                        None \<Rightarrow> metadata | Some t \<Rightarrow> metadata\<lparr>author := Some t\<rparr>);
          metadata = (case truthyText (first ''cp:lastModifiedBy'') of
                        None \<Rightarrow> metadata | Some t \<Rightarrow> metadata\<lparr>lastModifiedBy := Some t\<rparr>);
          metadata = (case truthyText (first ''dcterms:created'') of
                        None \<Rightarrow> metadata | Some t \<Rightarrow> metadata\<lparr>created := Some (newDate h t)\<rparr>);
          metadata = (case truthyText (first ''dcterms:modified'') of
                        None \<Rightarrow> metadata | Some t \<Rightarrow> metadata\<lparr>modified := Some (newDate h t)\<rparr>);
          metadata = (case truthyText (first ''dc:description'') of
                        None \<Rightarrow> metadata | Some t \<Rightarrow> metadata\<lparr>description := Some t\<rparr>);
          metadata = (case truthyText (first ''dc:subject'') of
                        None \<Rightarrow> metadata | Some t \<Rightarrow> metadata\<lparr>subject := Some t\<rparr>)
      in metadata)"

text \<open>Lines 169 to 184: the body of the loop over the \<^verbatim>\<open>meta:user-defined\<close> elements.\<close>

definition userDefinedStep :: "host \<Rightarrow> properties \<Rightarrow> node \<Rightarrow> properties" where
  "userDefinedStep h customProps el =
     (case getAttribute el ''meta:name'' of
        None \<Rightarrow> customProps
      | Some name \<Rightarrow>
          if name = [] \<or> textContent el = [] then customProps
          else
            (let valueType = (case getAttribute el ''meta:value-type'' of
                                None \<Rightarrow> ''string''
                              | Some v \<Rightarrow> if v = [] then ''string'' else v);
                 raw = textContent el
             in if valueType = ''boolean''
                then assignProperty customProps name (VBoolean (toLowerCase raw = ''true''))
                else if valueType = ''float''
                then (let num = Number raw
                      in if \<not> isNaN num then assignProperty customProps name (VNumber num)
                         else customProps)
                else if valueType = ''date'' \<or> valueType = ''time''
                then (let date = newDate h raw
                      in if getTime date \<noteq> None
                         then assignProperty customProps name (VDate date)
                         else assignProperty customProps name (VString raw))
                else assignProperty customProps name (VString raw)))"

text \<open>Lines 146 to 189: the fields read below the \<^verbatim>\<open>office:meta\<close> element.\<close>

definition officeMetaFields :: "host \<Rightarrow> node \<Rightarrow> officeMetadata \<Rightarrow> officeMetadata" where
  "officeMetaFields h officeMeta metadata =
     (let first = (\<lambda>tag. item0 (getElementsByTagName (Inl officeMeta) tag));
          metadata = (case truthyText (first ''dc:title'') of
                        None \<Rightarrow> metadata | Some t \<Rightarrow> metadata\<lparr>title := Some t\<rparr>);
          metadata = (case truthyText (first ''dc:creator'') of
                        None \<Rightarrow> metadata | Some t \<Rightarrow> metadata\<lparr>author := Some t\<rparr>);
          metadata = (case truthyText (first ''dc:description'') of
                        None \<Rightarrow> metadata | Some t \<Rightarrow> metadata\<lparr>description := Some t\<rparr>);
          metadata = (case truthyText (first ''dc:subject'') of
                        None \<Rightarrow> metadata | Some t \<Rightarrow> metadata\<lparr>subject := Some t\<rparr>);
          metadata = (case truthyText (first ''meta:creation-date'') of
                        None \<Rightarrow> metadata | Some t \<Rightarrow> metadata\<lparr>created := Some (newDate h t)\<rparr>);
          metadata = (case truthyText (first ''dc:date'') of
                        None \<Rightarrow> metadata | Some t \<Rightarrow> metadata\<lparr>modified := Some (newDate h t)\<rparr>);
          userDefined = getElementsByTagName (Inl officeMeta) ''meta:user-defined''
      in if userDefined \<noteq> []
         then (let customProps = foldl (userDefinedStep h) Map.empty userDefined
               in if dom customProps \<noteq> {}
                  then metadata\<lparr>customProperties := Some customProps\<rparr>
                  else metadata)
         else metadata)"

definition parseOfficeMetadata :: "host \<Rightarrow> string \<Rightarrow> officeMetadata option" where
  "parseOfficeMetadata h xmlContent =
     (case parseXmlString h xmlContent of
        None \<Rightarrow> None
      | Some xml \<Rightarrow>
          (let metadata = emptyMetadata
           in case item0 (getElementsByTagName (Inr xml) ''cp:coreProperties'') of
                Some coreProperties \<Rightarrow> Some (corePropertiesFields h coreProperties metadata)
              | None \<Rightarrow>
                  (case item0 (getElementsByTagName (Inr xml) ''office:meta'') of
                     Some officeMeta \<Rightarrow> Some (officeMetaFields h officeMeta metadata)
                   | None \<Rightarrow> Some metadata)))"

subsection \<open>\<^verbatim>\<open>parseOOXMLCustomProperties\<close>\<close>

text \<open>Lines 231 to 249: the value element of a property, decoded by its tag.\<close>

definition assignValue :: "host \<Rightarrow> properties \<Rightarrow> string \<Rightarrow> node \<Rightarrow> properties" where
  "assignValue h result name el =
     (let tag = tagName el;
          text = textContent el
      in if regexTest stringPattern tag then assignProperty result name (VString text)
         else if regexTest boolPattern tag
         then assignProperty result name (VBoolean (toLowerCase text = ''true''))
         else if regexTest numberPattern tag
         then (let num = Number text
               in if \<not> isNaN num then assignProperty result name (VNumber num) else result)
         else if regexTest datePattern tag
         then (let date = newDate h text
               in if getTime date \<noteq> None then assignProperty result name (VDate date)
                  else assignProperty result name (VString text))
         else if text \<noteq> [] then assignProperty result name (VString text)
         else result)"

text \<open>Lines 228 to 251: the loop over the child nodes, which skips the nodes that are
  not elements and stops after the first element.\<close>

fun scanChildNodes :: "host \<Rightarrow> properties \<Rightarrow> string \<Rightarrow> node list \<Rightarrow> properties" where
  "scanChildNodes h result name [] = result"
| "scanChildNodes h result name (child # rest) =
     (if nodeType child \<noteq> 1 then scanChildNodes h result name rest
      else assignValue h result name child)"

text \<open>Lines 224 to 251: the body of the loop over the \<^verbatim>\<open>property\<close> elements.\<close>

definition propertyStep :: "host \<Rightarrow> properties \<Rightarrow> node \<Rightarrow> properties" where
  "propertyStep h result prop =
     (case getAttribute prop ''name'' of
        None \<Rightarrow> result
      | Some name \<Rightarrow> if name = [] then result
                     else scanChildNodes h result name (childNodes prop))"

definition parseOOXMLCustomProperties :: "host \<Rightarrow> string \<Rightarrow> properties option" where
  "parseOOXMLCustomProperties h xmlContent =
     (case parseXmlString h xmlContent of
        None \<Rightarrow> None
      | Some xml \<Rightarrow>
          Some (foldl (propertyStep h) Map.empty (getElementsByTagName (Inr xml) ''property'')))"

section \<open>Reading the results\<close>

text \<open>The property of its own that \<^verbatim>\<open>metadata.customProperties\<close> has under a name: \<open>None\<close>
  when the field is absent or the object has no such property of its own.\<close>

definition customProperty :: "officeMetadata \<Rightarrow> string \<Rightarrow> typedValue option" where
  "customProperty md name = (case customProperties md of None \<Rightarrow> None | Some props \<Rightarrow> props name)"

text \<open>
  The rule the specification gives for names that occur more than once, to be compared
  with the loops of the source: the map of a sequence of elements holds, under each
  name, what the last element that decodes to a value under that name decodes to.
  Here \<open>step Map.empty e\<close> is what the element \<open>e\<close> decodes to on its own.
\<close>

definition lastWriteWins ::
  "(properties \<Rightarrow> node \<Rightarrow> properties) \<Rightarrow> node list \<Rightarrow> properties" where
  "lastWriteWins step els name =
     (case filter (\<lambda>e. step Map.empty e name \<noteq> None) els of
        [] \<Rightarrow> None
      | q # qs \<Rightarrow> step Map.empty (last (q # qs)) name)"

section \<open>Example inputs\<close>

text \<open>
  A host for the examples. Its parser knows one document, given with the tree it stands
  for; its date parser knows one ISO timestamp and rejects every other text.
\<close>

definition exampleDateParse :: "string \<Rightarrow> int option" where
  "exampleDateParse s = (if s = ''2024-01-15T10:30:00Z'' then Some 1705314600000 else None)"

definition exampleHost :: "string \<Rightarrow> document \<Rightarrow> host" where
  "exampleHost xml doc =
     \<lparr>parseFromString = (\<lambda>s. if s = xml then Some doc else None),
      Date_parse = exampleDateParse\<rparr>"

definition unrelatedXml :: string where
  "unrelatedXml = ''<notes><dc:title>Minutes</dc:title></notes>''"

definition unrelatedDoc :: document where
  "unrelatedDoc = Document [Element ''notes'' [] [Element ''dc:title'' [] [TextNode ''Minutes'']]]"

definition mixedXml :: string where
  \<open>mixedXml = ''<r><cp:coreProperties><dc:title>Report</dc:title>'' @
     ''<dcterms:created>yesterday</dcterms:created></cp:coreProperties>'' @
     ''<office:meta><dc:creator>Ann</dc:creator>'' @
     ''<meta:creation-date>2024-01-15T10:30:00Z</meta:creation-date>'' @
     ''<dc:date>2024-01-15T10:30:00Z</dc:date>'' @
     ''<meta:user-defined meta:name="k">v</meta:user-defined></office:meta></r>''\<close>

definition mixedDoc :: document where
  "mixedDoc = Document [Element ''r'' []
     [Element ''cp:coreProperties'' []
        [Element ''dc:title'' [] [TextNode ''Report''],
         Element ''dcterms:created'' [] [TextNode ''yesterday'']],
      Element ''office:meta'' []
        [Element ''dc:creator'' [] [TextNode ''Ann''],
         Element ''meta:creation-date'' [] [TextNode ''2024-01-15T10:30:00Z''],
         Element ''dc:date'' [] [TextNode ''2024-01-15T10:30:00Z''],
         Element ''meta:user-defined'' [(''meta:name'', ''k'')] [TextNode ''v'']]]]"

definition coreDatesXml :: string where
  "coreDatesXml = ''<cp:coreProperties><dcterms:created>yesterday</dcterms:created>'' @
     ''<dcterms:modified>2024-01-15T10:30:00Z</dcterms:modified></cp:coreProperties>''"

definition coreDatesDoc :: document where
  "coreDatesDoc = Document [Element ''cp:coreProperties'' []
     [Element ''dcterms:created'' [] [TextNode ''yesterday''],
      Element ''dcterms:modified'' [] [TextNode ''2024-01-15T10:30:00Z'']]]"

definition odfDatesXml :: string where
  "odfDatesXml = ''<office:meta><meta:creation-date>2024-01-15T10:30:00Z</meta:creation-date>'' @
     ''<dc:date>last week</dc:date></office:meta>''"

definition odfDatesDoc :: document where
  "odfDatesDoc = Document [Element ''office:meta'' []
     [Element ''meta:creation-date'' [] [TextNode ''2024-01-15T10:30:00Z''],
      Element ''dc:date'' [] [TextNode ''last week'']]]"

definition duplicateXml :: string where
  \<open>duplicateXml = ''<Properties><property name="a"><vt:lpwstr>one</vt:lpwstr></property>'' @
     ''<property name="a"><vt:i4>2</vt:i4></property>'' @
     ''<property name="a"><vt:r8>abc</vt:r8></property>'' @
     ''<property name="b"><vt:bool>TRUE</vt:bool></property></Properties>''\<close>

definition duplicateDoc :: document where
  "duplicateDoc = Document [Element ''Properties'' []
     [Element ''property'' [(''name'', ''a'')] [Element ''vt:lpwstr'' [] [TextNode ''one'']],
      Element ''property'' [(''name'', ''a'')] [Element ''vt:i4'' [] [TextNode ''2'']],
      Element ''property'' [(''name'', ''a'')] [Element ''vt:r8'' [] [TextNode ''abc'']],
      Element ''property'' [(''name'', ''b'')] [Element ''vt:bool'' [] [TextNode ''TRUE'']]]]"

definition odfNothingDecodedXml :: string where
  \<open>odfNothingDecodedXml = ''<office:meta><dc:title>Plan</dc:title>'' @
     ''<meta:user-defined meta:name="ratio" meta:value-type="float">abc</meta:user-defined>'' @
     ''<meta:user-defined meta:name="empty"></meta:user-defined></office:meta>''\<close>

definition odfNothingDecodedDoc :: document where
  "odfNothingDecodedDoc = Document [Element ''office:meta'' []
     [Element ''dc:title'' [] [TextNode ''Plan''],
      Element ''meta:user-defined'' [(''meta:name'', ''ratio''), (''meta:value-type'', ''float'')]
        [TextNode ''abc''],
      Element ''meta:user-defined'' [(''meta:name'', ''empty'')] []]]"

definition earlierValueXml :: string where
  \<open>earlierValueXml = ''<Properties><property name="a"><vt:i4>1</vt:i4></property>'' @
     ''<property name="a"><vt:r8>abc</vt:r8></property></Properties>''\<close>

definition earlierValueDoc :: document where
  "earlierValueDoc = Document [Element ''Properties'' []
     [Element ''property'' [(''name'', ''a'')] [Element ''vt:i4'' [] [TextNode ''1'']],
      Element ''property'' [(''name'', ''a'')] [Element ''vt:r8'' [] [TextNode ''abc'']]]]"

definition failedNumberXml :: string where
  \<open>failedNumberXml = ''<Properties><property name="a"><vt:r8>abc</vt:r8></property>'' @
     ''<property name="b"><vt:lpwstr>x</vt:lpwstr></property></Properties>''\<close>

definition failedNumberDoc :: document where
  "failedNumberDoc = Document [Element ''Properties'' []
     [Element ''property'' [(''name'', ''a'')] [Element ''vt:r8'' [] [TextNode ''abc'']],
      Element ''property'' [(''name'', ''b'')] [Element ''vt:lpwstr'' [] [TextNode ''x'']]]]"

definition failedDateXml :: string where
  \<open>failedDateXml = ''<Properties><property name="d"><vt:filetime>not-a-date</vt:filetime>'' @
     ''</property><property name="e"><vt:date>2024-01-15T10:30:00Z</vt:date></property>'' @
     ''</Properties>''\<close>

definition failedDateDoc :: document where
  "failedDateDoc = Document [Element ''Properties'' []
     [Element ''property'' [(''name'', ''d'')] [Element ''vt:filetime'' [] [TextNode ''not-a-date'']],
      Element ''property'' [(''name'', ''e'')]
        [Element ''vt:date'' [] [TextNode ''2024-01-15T10:30:00Z'']]]]"

definition odfFailedDateXml :: string where
  \<open>odfFailedDateXml = ''<office:meta>'' @
     ''<meta:user-defined meta:name="d" meta:value-type="date">not-a-date</meta:user-defined>'' @
     ''<meta:user-defined meta:name="n">x</meta:user-defined></office:meta>''\<close>

definition odfFailedDateDoc :: document where
  "odfFailedDateDoc = Document [Element ''office:meta'' []
     [Element ''meta:user-defined'' [(''meta:name'', ''d''), (''meta:value-type'', ''date'')]
        [TextNode ''not-a-date''],
      Element ''meta:user-defined'' [(''meta:name'', ''n'')] [TextNode ''x'']]]"

definition odfOverwrittenDateXml :: string where
  \<open>odfOverwrittenDateXml = ''<office:meta>'' @
     ''<meta:user-defined meta:name="d" meta:value-type="date">not-a-date</meta:user-defined>'' @
     ''<meta:user-defined meta:name="d">x</meta:user-defined></office:meta>''\<close>

definition odfOverwrittenDateDoc :: document where
  "odfOverwrittenDateDoc = Document [Element ''office:meta'' []
     [Element ''meta:user-defined'' [(''meta:name'', ''d''), (''meta:value-type'', ''date'')]
        [TextNode ''not-a-date''],
      Element ''meta:user-defined'' [(''meta:name'', ''d'')] [TextNode ''x'']]]"

definition odfEmptyBooleanXml :: string where
  \<open>odfEmptyBooleanXml =
     ''<office:meta xmlns:office="urn:oasis:names:tc:opendocument:xmlns:office:1.0"'' @
     '' xmlns:meta="urn:oasis:names:tc:opendocument:xmlns:meta:1.0">'' @
     ''<meta:user-defined meta:name="flag" meta:value-type="boolean"></meta:user-defined>'' @
     ''</office:meta>''\<close>

definition odfEmptyBooleanDoc :: document where
  "odfEmptyBooleanDoc = Document [Element ''office:meta''
     [(''xmlns:office'', ''urn:oasis:names:tc:opendocument:xmlns:office:1.0''),
      (''xmlns:meta'', ''urn:oasis:names:tc:opendocument:xmlns:meta:1.0'')]
     [Element ''meta:user-defined'' [(''meta:name'', ''flag''), (''meta:value-type'', ''boolean'')]
        []]]"

text \<open>Three documents whose properties have the name \<^verbatim>\<open>__proto__\<close>.\<close>

definition protoBlankNumberXml :: string where
  \<open>protoBlankNumberXml =
     ''<Properties xmlns:vt="http://schemas.openxmlformats.org/officeDocument/2006/docPropsVTypes">'' @
     ''<property name="__proto__"><vt:i4> </vt:i4></property></Properties>''\<close>

definition protoBlankNumberDoc :: document where
  "protoBlankNumberDoc = Document [Element ''Properties''
     [(''xmlns:vt'', ''http://schemas.openxmlformats.org/officeDocument/2006/docPropsVTypes'')]
     [Element ''property'' [(''name'', ''__proto__'')] [Element ''vt:i4'' [] [TextNode '' '']]]]"

definition protoDuplicateXml :: string where
  \<open>protoDuplicateXml =
     ''<Properties xmlns:vt="http://schemas.openxmlformats.org/officeDocument/2006/docPropsVTypes">'' @
     ''<property name="__proto__"><vt:lpwstr>one</vt:lpwstr></property>'' @
     ''<property name="__proto__"><vt:i4>2</vt:i4></property></Properties>''\<close>

definition protoDuplicateDoc :: document where
  "protoDuplicateDoc = Document [Element ''Properties''
     [(''xmlns:vt'', ''http://schemas.openxmlformats.org/officeDocument/2006/docPropsVTypes'')]
     [Element ''property'' [(''name'', ''__proto__'')] [Element ''vt:lpwstr'' [] [TextNode ''one'']],
      Element ''property'' [(''name'', ''__proto__'')] [Element ''vt:i4'' [] [TextNode ''2'']]]]"

definition odfProtoXml :: string where
  \<open>odfProtoXml =
     ''<office:meta xmlns:office="urn:oasis:names:tc:opendocument:xmlns:office:1.0"'' @
     '' xmlns:meta="urn:oasis:names:tc:opendocument:xmlns:meta:1.0">'' @
     ''<meta:user-defined meta:name="__proto__">x</meta:user-defined></office:meta>''\<close>

definition odfProtoDoc :: document where
  "odfProtoDoc = Document [Element ''office:meta''
     [(''xmlns:office'', ''urn:oasis:names:tc:opendocument:xmlns:office:1.0''),
      (''xmlns:meta'', ''urn:oasis:names:tc:opendocument:xmlns:meta:1.0'')]
     [Element ''meta:user-defined'' [(''meta:name'', ''__proto__'')] [TextNode ''x'']]]"

section \<open>Auxiliary facts\<close>

lemma set_title:
  "(case v of None \<Rightarrow> md | Some t \<Rightarrow> md\<lparr>title := Some t\<rparr>) =
     md\<lparr>title := (case v of None \<Rightarrow> title md | Some t \<Rightarrow> Some t)\<rparr>"
  by (cases v) simp_all

lemma set_author:
  "(case v of None \<Rightarrow> md | Some t \<Rightarrow> md\<lparr>author := Some t\<rparr>) =
     md\<lparr>author := (case v of None \<Rightarrow> author md | Some t \<Rightarrow> Some t)\<rparr>"
  by (cases v) simp_all

lemma set_lastModifiedBy:
  "(case v of None \<Rightarrow> md | Some t \<Rightarrow> md\<lparr>lastModifiedBy := Some t\<rparr>) =
     md\<lparr>lastModifiedBy := (case v of None \<Rightarrow> lastModifiedBy md | Some t \<Rightarrow> Some t)\<rparr>"
  by (cases v) simp_all

lemma set_description:
  "(case v of None \<Rightarrow> md | Some t \<Rightarrow> md\<lparr>description := Some t\<rparr>) =
     md\<lparr>description := (case v of None \<Rightarrow> description md | Some t \<Rightarrow> Some t)\<rparr>"
  by (cases v) simp_all

lemma set_subject:
  "(case v of None \<Rightarrow> md | Some t \<Rightarrow> md\<lparr>subject := Some t\<rparr>) =
     md\<lparr>subject := (case v of None \<Rightarrow> subject md | Some t \<Rightarrow> Some t)\<rparr>"
  by (cases v) simp_all

lemma set_created:
  "(case v of None \<Rightarrow> md | Some t \<Rightarrow> md\<lparr>created := Some (f t)\<rparr>) =
     md\<lparr>created := (case v of None \<Rightarrow> created md | Some t \<Rightarrow> Some (f t))\<rparr>"
  by (cases v) simp_all

lemma set_modified:
  "(case v of None \<Rightarrow> md | Some t \<Rightarrow> md\<lparr>modified := Some (f t)\<rparr>) =
     md\<lparr>modified := (case v of None \<Rightarrow> modified md | Some t \<Rightarrow> Some (f t))\<rparr>"
  by (cases v) simp_all

lemmas set_field = set_title set_author set_lastModifiedBy set_description set_subject
  set_created set_modified

lemma case_option_map: "(case v of None \<Rightarrow> None | Some t \<Rightarrow> Some (f t)) = map_option f v"
  by (cases v) simp_all

lemma case_option_same: "(case v of None \<Rightarrow> None | Some t \<Rightarrow> Some t) = v"
  by (cases v) simp_all

lemma corePropertiesFields_empty:
  "corePropertiesFields h cp emptyMetadata =
     \<lparr>title = truthyText (item0 (getElementsByTagName (Inl cp) ''dc:title'')),
      author = truthyText (item0 (getElementsByTagName (Inl cp) ''dc:creator'')),
      lastModifiedBy = truthyText (item0 (getElementsByTagName (Inl cp) ''cp:lastModifiedBy'')),
      created = map_option (newDate h)
                  (truthyText (item0 (getElementsByTagName (Inl cp) ''dcterms:created''))),
      modified = map_option (newDate h)
                   (truthyText (item0 (getElementsByTagName (Inl cp) ''dcterms:modified''))),
      description = truthyText (item0 (getElementsByTagName (Inl cp) ''dc:description'')),
      subject = truthyText (item0 (getElementsByTagName (Inl cp) ''dc:subject'')),
      customProperties = None\<rparr>"
  unfolding corePropertiesFields_def Let_def set_field emptyMetadata_def
  by (simp only: officeMetadata.simps case_option_same case_option_map option.map_ident)

lemma attach_customProperties:
  "(if uds \<noteq> [] then (if dom (foldl f Map.empty uds) \<noteq> {}
                         then md\<lparr>customProperties := Some (foldl f Map.empty uds)\<rparr> else md)
    else md) =
   md\<lparr>customProperties := (if dom (foldl f Map.empty uds) \<noteq> {}
                             then Some (foldl f Map.empty uds) else customProperties md)\<rparr>"
  by (cases uds) simp_all

lemma officeMetaFields_empty:
  "officeMetaFields h om emptyMetadata =
     \<lparr>title = truthyText (item0 (getElementsByTagName (Inl om) ''dc:title'')),
      author = truthyText (item0 (getElementsByTagName (Inl om) ''dc:creator'')),
      lastModifiedBy = None,
      created = map_option (newDate h)
                  (truthyText (item0 (getElementsByTagName (Inl om) ''meta:creation-date''))),
      modified = map_option (newDate h)
                   (truthyText (item0 (getElementsByTagName (Inl om) ''dc:date''))),
      description = truthyText (item0 (getElementsByTagName (Inl om) ''dc:description'')),
      subject = truthyText (item0 (getElementsByTagName (Inl om) ''dc:subject'')),
      customProperties =
        (if dom (foldl (userDefinedStep h) Map.empty
                   (getElementsByTagName (Inl om) ''meta:user-defined'')) \<noteq> {}
         then Some (foldl (userDefinedStep h) Map.empty
                      (getElementsByTagName (Inl om) ''meta:user-defined''))
         else None)\<rparr>"
  unfolding officeMetaFields_def Let_def set_field emptyMetadata_def attach_customProperties
  by (simp only: officeMetadata.simps case_option_same case_option_map option.map_ident)

lemma scanChildNodes_first_element:
  "scanChildNodes h result name cs =
     (case filter (\<lambda>c. nodeType c = 1) cs of
        [] \<Rightarrow> result
      | el # rest \<Rightarrow> assignValue h result name el)"
  by (induction cs) simp_all

lemma assignValue_add: "assignValue h result name el = result ++ assignValue h Map.empty name el"
  by (simp add: assignValue_def assignProperty_def Let_def)

lemma propertyStep_add: "propertyStep h result prop = result ++ propertyStep h Map.empty prop"
  unfolding propertyStep_def scanChildNodes_first_element
  using assignValue_add [of h result]
  by (simp split: option.split list.split)

lemma userDefinedStep_add:
  "userDefinedStep h customProps el = customProps ++ userDefinedStep h Map.empty el"
  by (simp add: userDefinedStep_def assignProperty_def Let_def split: option.split)

lemma assignValue_key: "assignValue h Map.empty name el n = Some v \<Longrightarrow> n = name"
  by (simp add: assignValue_def assignProperty_def Let_def split: if_splits)

lemma propertyStep_key:
  "propertyStep h Map.empty prop n = Some v \<Longrightarrow> getAttribute prop ''name'' = Some n \<and> n \<noteq> []"
  unfolding propertyStep_def scanChildNodes_first_element
  by (auto split: option.splits list.splits if_splits dest: assignValue_key)

lemma userDefinedStep_key:
  "userDefinedStep h Map.empty el n = Some v \<Longrightarrow>
     getAttribute el ''meta:name'' = Some n \<and> n \<noteq> [] \<and> textContent el \<noteq> []"
  by (simp add: userDefinedStep_def assignProperty_def Let_def split: option.splits if_splits)

lemma foldl_last_write:
  assumes step: "\<And>acc p. f acc p = acc ++ f Map.empty p"
  shows "foldl f acc ps n =
     (case filter (\<lambda>p. f Map.empty p n \<noteq> None) ps of
        [] \<Rightarrow> acc n
      | q # qs \<Rightarrow> f Map.empty (last (q # qs)) n)"
proof (induction ps rule: rev_induct)
  case Nil
  show ?case by simp
next
  case (snoc p ps)
  have "foldl f acc (ps @ [p]) n = (foldl f acc ps ++ f Map.empty p) n"
    using step [of "foldl f acc ps" p] by simp
  then show ?case using snoc
    by (auto simp: map_add_def split: option.splits list.splits)
qed

lemma foldl_no_write:
  assumes step: "\<And>acc p. f acc p = acc ++ f Map.empty p"
    and none: "\<forall>p\<in>set ps. f Map.empty p n = None"
  shows "foldl f acc ps n = acc n"
proof -
  have "filter (\<lambda>p. f Map.empty p n \<noteq> None) ps = []"
    using none by (simp add: filter_empty_conv)
  then show ?thesis
    using foldl_last_write [of f acc ps n, OF step] by simp
qed

lemma foldl_lastWriteWins:
  assumes "\<And>acc p. f acc p = acc ++ f Map.empty p"
  shows "foldl f Map.empty ps = lastWriteWins f ps"
  unfolding lastWriteWins_def
  using foldl_last_write [of f Map.empty ps, OF assms] by (intro ext) simp

lemma foldl_after:
  assumes step: "\<And>acc p. f acc p = acc ++ f Map.empty p"
    and none: "\<forall>p\<in>set after. f Map.empty p n = None"
  shows "foldl f acc (before @ p # after) n = f (foldl f acc before) p n"
  using foldl_no_write [of f after n "f (foldl f acc before) p", OF step none] by simp

lemma propertyStep_value:
  assumes "getAttribute prop ''name'' = Some name" and "name \<noteq> []"
    and "filter (\<lambda>c. nodeType c = 1) (childNodes prop) = v # rest"
  shows "propertyStep h result prop = assignValue h result name v"
  using assms by (simp add: propertyStep_def scanChildNodes_first_element)

lemma number_tag_branch:
  assumes "t \<in> set numberPattern"
  shows "\<not> regexTest stringPattern t \<and> \<not> regexTest boolPattern t \<and> regexTest numberPattern t"
  using assms by (auto simp: numberPattern_def stringPattern_def boolPattern_def)

lemma Number_blank:
  assumes "\<forall>c\<in>set s. isStrWhiteSpaceChar c"
  shows "Number s = Finite 0"
proof -
  have "trimString s = []"
    using assms by (auto simp: trimString_def dest: set_dropWhileD)
  then show ?thesis by (simp add: Number_def)
qed

lemma parseOfficeMetadata_core:
  assumes "parseXmlString h xmlContent = Some xml"
    and "getElementsByTagName (Inr xml) ''cp:coreProperties'' = cp # cps"
  shows "parseOfficeMetadata h xmlContent = Some (corePropertiesFields h cp emptyMetadata)"
  using assms by (simp add: parseOfficeMetadata_def item0_def)

lemma parseOfficeMetadata_odf:
  assumes "parseXmlString h xmlContent = Some xml"
    and "getElementsByTagName (Inr xml) ''cp:coreProperties'' = []"
    and "getElementsByTagName (Inr xml) ''office:meta'' = om # oms"
  shows "parseOfficeMetadata h xmlContent = Some (officeMetaFields h om emptyMetadata)"
  using assms by (simp add: parseOfficeMetadata_def item0_def)

lemma customProperty_odf:
  "customProperty (officeMetaFields h om emptyMetadata) name =
     foldl (userDefinedStep h) Map.empty (getElementsByTagName (Inl om) ''meta:user-defined'') name"
proof -
  have "m name = None" if "dom m = {}" for m :: properties
    using that by (simp add: domIff)
  then show ?thesis
    by (simp add: officeMetaFields_empty customProperty_def)
qed

lemma truthyText_first:
  assumes "els = el # rest" and "textContent el \<noteq> []"
  shows "truthyText (item0 els) = Some (textContent el)"
  using assms by (simp add: truthyText_def item0_def)

lemma parse_example [simp]: "parseXmlString (exampleHost xml doc) xml = Some doc"
  by (simp add: parseXmlString_def exampleHost_def)

lemma Date_parse_example [simp]: "Date_parse (exampleHost xml doc) = exampleDateParse"
  by (simp add: exampleHost_def)

lemmas toLowerCase_defs = toLowerCase_def toLowerCaseChar_def upperCaseLetters_def
  lowerCaseLetters_def

lemmas Number_defs = Number_def trimString_def isStrWhiteSpaceChar_def
  nonDecimalIntegerLiteral_def strDecimalLiteral_def exponentPart_def isDigit_def
  digitValue_def digitsValue_def

lemmas pattern_defs = stringPattern_def boolPattern_def numberPattern_def datePattern_def

text \<open>The tags \<^verbatim>\<open>vt:bool\<close>, \<^verbatim>\<open>vt:filetime\<close> and \<^verbatim>\<open>vt:date\<close> select the branch of their own
  pattern: no pattern tested earlier matches them.\<close>

lemma bool_tag_branch:
  assumes "t \<in> set boolPattern"
  shows "\<not> regexTest stringPattern t \<and> regexTest boolPattern t"
  using assms by (auto simp: stringPattern_def boolPattern_def)

lemma date_tag_branch:
  assumes "t \<in> set datePattern"
  shows "\<not> regexTest stringPattern t \<and> \<not> regexTest boolPattern t \<and>
     \<not> regexTest numberPattern t \<and> regexTest datePattern t"
  using assms by (auto simp: pattern_defs)

lemma parseOOXMLCustomProperties_lastWriteWins:
  assumes "parseXmlString h xmlContent = Some xml"
  shows "parseOOXMLCustomProperties h xmlContent =
     Some (lastWriteWins (propertyStep h) (getElementsByTagName (Inr xml) ''property''))"
  using assms foldl_lastWriteWins [of "propertyStep h", OF propertyStep_add]
  by (simp add: parseOOXMLCustomProperties_def)

lemma duplicateDoc_third: "propertyStep h Map.empty
     (Element ''property'' [(''name'', ''a'')] [Element ''vt:r8'' [] [TextNode ''abc'']])
   = Map.empty"
  by (simp add: propertyStep_def assignValue_def assignProperty_def pattern_defs Number_defs isNaN_def)

lemma foldl_dom:
  assumes step: "\<And>acc p. f acc p = acc ++ f Map.empty p"
  shows "dom (foldl f acc ps) = dom acc \<union> (\<Union>p\<in>set ps. dom (f Map.empty p))"
proof (induction ps arbitrary: acc)
  case Nil
  show ?case by simp
next
  case (Cons p ps)
  have "dom (f acc p) = dom acc \<union> dom (f Map.empty p)"
    using step [of acc p] by (metis dom_map_add sup_commute)
  then show ?case using Cons [of "f acc p"] by auto
qed

lemma userDefinedStep_dom:
  "dom (userDefinedStep h Map.empty el) \<noteq> {} \<longleftrightarrow>
     (\<exists>n. getAttribute el ''meta:name'' = Some n \<and> n \<noteq> [] \<and> n \<noteq> ''__proto__'') \<and>
     textContent el \<noteq> [] \<and>
     \<not> (getAttribute el ''meta:value-type'' = Some ''float'' \<and> isNaN (Number (textContent el)))"
  by (auto simp: userDefinedStep_def assignProperty_def Let_def split: option.splits)

lemma userDefinedStep_skip:
  assumes "getAttribute el ''meta:name'' = None \<or> getAttribute el ''meta:name'' = Some []
     \<or> textContent el = []"
  shows "userDefinedStep h customProps el = customProps"
  using assms by (auto simp: userDefinedStep_def assignProperty_def split: option.splits)

lemma customProperties_odf:
  "customProperties (officeMetaFields h om emptyMetadata) =
     (if \<exists>e\<in>set (getElementsByTagName (Inl om) ''meta:user-defined'').
           dom (userDefinedStep h Map.empty e) \<noteq> {}
      then Some (lastWriteWins (userDefinedStep h)
                   (getElementsByTagName (Inl om) ''meta:user-defined''))
      else None)"
  using foldl_dom [of "userDefinedStep h" Map.empty, OF userDefinedStep_add]
    foldl_lastWriteWins [of "userDefinedStep h", OF userDefinedStep_add]
  by (simp add: officeMetaFields_empty)

lemma userDefined_empty: "userDefinedStep h customProps (Element ''meta:user-defined'' [(''meta:name'', ''empty'')] [])
   = customProps"
  by (simp add: userDefinedStep_def assignProperty_def)

lemma toLowerCase_true:
  "toLowerCase s = ''true'' \<longleftrightarrow>
     (\<exists>a b c d. s = [a, b, c, d] \<and> a \<in> {CHR ''t'', CHR ''T''} \<and> b \<in> {CHR ''r'', CHR ''R''} \<and>
        c \<in> {CHR ''u'', CHR ''U''} \<and> d \<in> {CHR ''e'', CHR ''E''})"
proof -
  have t: "toLowerCaseChar c = CHR ''t'' \<longleftrightarrow> c \<in> {CHR ''t'', CHR ''T''}"
    and r: "toLowerCaseChar c = CHR ''r'' \<longleftrightarrow> c \<in> {CHR ''r'', CHR ''R''}"
    and u: "toLowerCaseChar c = CHR ''u'' \<longleftrightarrow> c \<in> {CHR ''u'', CHR ''U''}"
    and e: "toLowerCaseChar c = CHR ''e'' \<longleftrightarrow> c \<in> {CHR ''e'', CHR ''E''}" for c
    by (auto simp: toLowerCaseChar_def upperCaseLetters_def lowerCaseLetters_def)
  have "toLowerCase s = ''true'' \<longleftrightarrow>
      (\<exists>a b c d. s = [a, b, c, d] \<and> toLowerCaseChar a = CHR ''t'' \<and> toLowerCaseChar b = CHR ''r''
         \<and> toLowerCaseChar c = CHR ''u'' \<and> toLowerCaseChar d = CHR ''e'')"
    unfolding toLowerCase_def by (auto simp: map_eq_Cons_conv)
  then show ?thesis by (simp only: t r u e)
qed

lemma custom_lookup_after:
  assumes "parseXmlString h xmlContent = Some xml"
    and "getElementsByTagName (Inr xml) ''property'' = before @ p # after"
    and "\<forall>q\<in>set after. propertyStep h Map.empty q name = None"
  shows "map_option (\<lambda>result. result name) (parseOOXMLCustomProperties h xmlContent) =
     Some (propertyStep h (foldl (propertyStep h) Map.empty before) p name)"
  using assms(1,2)
    foldl_after [of "propertyStep h" after name Map.empty before p, OF propertyStep_add assms(3)]
  by (simp add: parseOOXMLCustomProperties_def)

lemma custom_lookup_absent:
  assumes "parseXmlString h xmlContent = Some xml"
    and "\<forall>p\<in>set (getElementsByTagName (Inr xml) ''property'').
           propertyStep h Map.empty p name = None"
  shows "map_option (\<lambda>result. result name) (parseOOXMLCustomProperties h xmlContent) = Some None"
  using assms(1)
    foldl_no_write [of "propertyStep h" _ name Map.empty, OF propertyStep_add assms(2)]
  by (simp add: parseOOXMLCustomProperties_def)

lemma odf_lookup:
  assumes "parseXmlString h xmlContent = Some xml"
    and "getElementsByTagName (Inr xml) ''cp:coreProperties'' = []"
    and "getElementsByTagName (Inr xml) ''office:meta'' = om # oms"
  shows "map_option (\<lambda>md. customProperty md name) (parseOfficeMetadata h xmlContent) =
     Some (foldl (userDefinedStep h) Map.empty
             (getElementsByTagName (Inl om) ''meta:user-defined'') name)"
  using parseOfficeMetadata_odf [OF assms] by (simp add: customProperty_odf)

lemma failed_number_custom_step:
  assumes "isNaN (Number (textContent v))"
    and "getAttribute property ''name'' = Some name"
    and "filter (\<lambda>c. nodeType c = 1) (childNodes property) = v # rest"
    and "tagName v \<in> set numberPattern"
  shows "propertyStep h result property = result"
proof (cases "name = []")
  case True
  then show ?thesis using assms(2) by (simp add: propertyStep_def)
next
  case False
  then show ?thesis
    using propertyStep_value [OF assms(2) False assms(3), of h result]
      number_tag_branch [OF assms(4)] assms(1)
    by (simp add: assignValue_def assignProperty_def)
qed

lemma failed_number_odf_step:
  assumes "isNaN (Number (textContent v))"
    and "getAttribute v ''meta:value-type'' = Some ''float''"
  shows "userDefinedStep h customProps v = customProps"
  using assms by (simp add: userDefinedStep_def assignProperty_def split: option.split)

lemma earlierValueDoc_first: "propertyStep h Map.empty
     (Element ''property'' [(''name'', ''a'')] [Element ''vt:i4'' [] [TextNode ''1'']])
   = [''a'' \<mapsto> VNumber (Finite 1)]"
  by (simp add: propertyStep_def assignValue_def assignProperty_def pattern_defs Number_defs isNaN_def)

lemma Number_abc: "Number ''abc'' = NaN"
  by (simp add: Number_defs)

lemma odf_lookup_after:
  assumes "parseXmlString h xmlContent = Some xml"
    and "getElementsByTagName (Inr xml) ''cp:coreProperties'' = []"
    and "getElementsByTagName (Inr xml) ''office:meta'' = om # oms"
    and "getElementsByTagName (Inl om) ''meta:user-defined'' = before @ e # after"
    and "\<forall>q\<in>set after. userDefinedStep h Map.empty q name = None"
  shows "map_option (\<lambda>md. customProperty md name) (parseOfficeMetadata h xmlContent) =
     Some (userDefinedStep h (foldl (userDefinedStep h) Map.empty before) e name)"
  using odf_lookup [OF assms(1,2,3), of name] assms(4)
    foldl_after [of "userDefinedStep h" after name Map.empty before e,
      OF userDefinedStep_add assms(5)]
  by simp

lemma failed_timestamp_odf_step:
  assumes "Date_parse h (textContent v) = None"
    and "getAttribute v ''meta:name'' = Some name" and "name \<noteq> []" and "textContent v \<noteq> []"
    and "getAttribute v ''meta:value-type'' = Some ''date'' \<or>
         getAttribute v ''meta:value-type'' = Some ''time''"
    and "name \<noteq> ''__proto__''"
  shows "userDefinedStep h customProps v = customProps(name \<mapsto> VString (textContent v))"
  using assms by (auto simp: userDefinedStep_def assignProperty_def newDate_def)

lemma failed_timestamp_custom_step:
  assumes "Date_parse h (textContent v) = None"
    and "getAttribute property ''name'' = Some name" and "name \<noteq> []"
    and "filter (\<lambda>c. nodeType c = 1) (childNodes property) = v # rest"
    and "regexTest datePattern (tagName v)" and "\<not> regexTest stringPattern (tagName v)"
    and "\<not> regexTest boolPattern (tagName v)" and "\<not> regexTest numberPattern (tagName v)"
    and "name \<noteq> ''__proto__''"
  shows "propertyStep h result property = result(name \<mapsto> VString (textContent v))"
  using propertyStep_value [OF assms(2,3,4), of h result] assms(1,5,6,7,8,9)
  by (simp add: assignValue_def assignProperty_def newDate_def)

text \<open>A blank numeric text is the number 0, which line 241 assigns under the name.\<close>

lemma blank_number_custom_step:
  assumes "getAttribute property ''name'' = Some name" and "name \<noteq> []"
    and "filter (\<lambda>c. nodeType c = 1) (childNodes property) = v # rest"
    and "tagName v \<in> set numberPattern"
    and "\<forall>c\<in>set (textContent v). isStrWhiteSpaceChar c"
  shows "propertyStep h result property = assignProperty result name (VNumber (Finite 0))"
  using propertyStep_value [OF assms(1,2,3), of h result] number_tag_branch [OF assms(4)]
    Number_blank [OF assms(5)]
  by (simp add: assignValue_def isNaN_def)

lemma failedNumberDoc_second: "propertyStep h Map.empty
     (Element ''property'' [(''name'', ''b'')] [Element ''vt:lpwstr'' [] [TextNode ''x'']])
   = [''b'' \<mapsto> VString ''x'']"
  by (simp add: propertyStep_def assignValue_def assignProperty_def stringPattern_def)

lemma failedDateDoc_second: "propertyStep (exampleHost xml doc) Map.empty
     (Element ''property'' [(''name'', ''e'')]
        [Element ''vt:date'' [] [TextNode ''2024-01-15T10:30:00Z'']])
   = [''e'' \<mapsto> VDate (Date (Some 1705314600000))]"
  by (simp add: propertyStep_def assignValue_def assignProperty_def pattern_defs newDate_def exampleDateParse_def)

lemma userDefined_plain: "userDefinedStep h customProps
     (Element ''meta:user-defined'' [(''meta:name'', n)] [TextNode ''x''])
   = (if n = [] \<or> n = ''__proto__'' then customProps else customProps(n \<mapsto> VString ''x''))"
  by (simp add: userDefinedStep_def assignProperty_def)

lemma userDefined_failed_date: "userDefinedStep (exampleHost xml doc) customProps
     (Element ''meta:user-defined'' [(''meta:name'', ''d''), (''meta:value-type'', ''date'')]
        [TextNode ''not-a-date''])
   = customProps(''d'' \<mapsto> VString ''not-a-date'')"
  by (simp add: userDefinedStep_def assignProperty_def newDate_def exampleDateParse_def)

section \<open>The claims\<close>

subsection \<open>Dialect detection\<close>

text \<open>
  C9. When the parsed tree holds neither a \<^verbatim>\<open>cp:coreProperties\<close> element nor an
  \<^verbatim>\<open>office:meta\<close> element, \<^verbatim>\<open>parseOfficeMetadata\<close> returns normally, with the record in
  which every field is absent.
\<close>

theorem no_marker_gives_empty_record:
  assumes "parseXmlString h xmlContent = Some xml"
    and "getElementsByTagName (Inr xml) ''cp:coreProperties'' = []"
    and "getElementsByTagName (Inr xml) ''office:meta'' = []"
  shows "parseOfficeMetadata h xmlContent =
     Some \<lparr>title = None, author = None, lastModifiedBy = None, created = None,
           modified = None, description = None, subject = None, customProperties = None\<rparr>"
  using assms by (simp add: parseOfficeMetadata_def item0_def emptyMetadata_def)

text \<open>The example has a \<^verbatim>\<open>dc:title\<close> element, yet no marker above it: nothing is read.\<close>

theorem no_marker_gives_empty_record_witness:
  "parseXmlString (exampleHost unrelatedXml unrelatedDoc) unrelatedXml = Some unrelatedDoc
   \<and> getElementsByTagName (Inr unrelatedDoc) ''cp:coreProperties'' = []
   \<and> getElementsByTagName (Inr unrelatedDoc) ''office:meta'' = []
   \<and> getElementsByTagName (Inr unrelatedDoc) ''dc:title''
       = [Element ''dc:title'' [] [TextNode ''Minutes'']]
   \<and> parseOfficeMetadata (exampleHost unrelatedXml unrelatedDoc) unrelatedXml =
       Some \<lparr>title = None, author = None, lastModifiedBy = None, created = None,
             modified = None, description = None, subject = None, customProperties = None\<rparr>"
  using no_marker_gives_empty_record
    [of "exampleHost unrelatedXml unrelatedDoc" unrelatedXml unrelatedDoc]
  by (simp add: getElementsByTagName_def unrelatedDoc_def)

text \<open>
  C1. When the tree holds a \<^verbatim>\<open>cp:coreProperties\<close> element, the record is decoded from
  the first such element alone: seven fields, each from its core-properties tag below
  that element, and no \<^verbatim>\<open>customProperties\<close>. No field comes from \<^verbatim>\<open>office:meta\<close>,
  \<^verbatim>\<open>meta:creation-date\<close>, \<^verbatim>\<open>dc:date\<close> or \<^verbatim>\<open>meta:user-defined\<close>, whatever else the
  document holds.
\<close>

theorem core_properties_take_precedence:
  assumes "parseXmlString h xmlContent = Some xml"
    and "getElementsByTagName (Inr xml) ''cp:coreProperties'' = coreProperties # others"
  shows "parseOfficeMetadata h xmlContent =
     Some \<lparr>title = truthyText (item0 (getElementsByTagName (Inl coreProperties) ''dc:title'')),
       author = truthyText (item0 (getElementsByTagName (Inl coreProperties) ''dc:creator'')),
       lastModifiedBy =
         truthyText (item0 (getElementsByTagName (Inl coreProperties) ''cp:lastModifiedBy'')),
       created = map_option (newDate h)
         (truthyText (item0 (getElementsByTagName (Inl coreProperties) ''dcterms:created''))),
       modified = map_option (newDate h)
         (truthyText (item0 (getElementsByTagName (Inl coreProperties) ''dcterms:modified''))),
       description =
         truthyText (item0 (getElementsByTagName (Inl coreProperties) ''dc:description'')),
       subject = truthyText (item0 (getElementsByTagName (Inl coreProperties) ''dc:subject'')),
       customProperties = None\<rparr>"
  using parseOfficeMetadata_core [OF assms] by (simp only: corePropertiesFields_empty)

text \<open>The example holds both dialects; its ODF elements leave no trace in the record.\<close>

theorem core_properties_take_precedence_witness:
  "parseXmlString (exampleHost mixedXml mixedDoc) mixedXml = Some mixedDoc
   \<and> getElementsByTagName (Inr mixedDoc) ''office:meta'' \<noteq> []
   \<and> getElementsByTagName (Inr mixedDoc) ''meta:user-defined'' \<noteq> []
   \<and> parseOfficeMetadata (exampleHost mixedXml mixedDoc) mixedXml =
       Some \<lparr>title = Some ''Report'', author = None, lastModifiedBy = None,
             created = Some (Date None), modified = None, description = None,
             subject = None, customProperties = None\<rparr>"
  using core_properties_take_precedence
    [of "exampleHost mixedXml mixedDoc" mixedXml mixedDoc
        "Element ''cp:coreProperties'' []
           [Element ''dc:title'' [] [TextNode ''Report''],
            Element ''dcterms:created'' [] [TextNode ''yesterday'']]" "[]"]
  by (simp add: getElementsByTagName_def mixedDoc_def truthyText_def item0_def newDate_def
      exampleDateParse_def)

subsection \<open>Timestamps of the scalar fields\<close>

text \<open>
  C6. On both paths \<^verbatim>\<open>created\<close> and \<^verbatim>\<open>modified\<close> are assigned \<^verbatim>\<open>new Date(text)\<close> of the
  first element with the field's tag whenever its text is not empty, with no test of the
  date obtained: where the text does not parse, the field holds the invalid date
  \<open>Date None\<close>. The four conjuncts are the two fields on the core-properties path and the
  two on the ODF path.
\<close>

theorem timestamps_assigned_without_validity_guard:
  assumes "parseXmlString h xmlContent = Some xml"
    and "textContent el \<noteq> []"
  shows "(getElementsByTagName (Inr xml) ''cp:coreProperties'' = cp # cps \<and>
          getElementsByTagName (Inl cp) ''dcterms:created'' = el # els \<longrightarrow>
            map_option created (parseOfficeMetadata h xmlContent) =
              Some (Some (Date (Date_parse h (textContent el)))))
       \<and> (getElementsByTagName (Inr xml) ''cp:coreProperties'' = cp # cps \<and>
          getElementsByTagName (Inl cp) ''dcterms:modified'' = el # els \<longrightarrow>
            map_option modified (parseOfficeMetadata h xmlContent) =
              Some (Some (Date (Date_parse h (textContent el)))))
       \<and> (getElementsByTagName (Inr xml) ''cp:coreProperties'' = [] \<and>
          getElementsByTagName (Inr xml) ''office:meta'' = om # oms \<and>
          getElementsByTagName (Inl om) ''meta:creation-date'' = el # els \<longrightarrow>
            map_option created (parseOfficeMetadata h xmlContent) =
              Some (Some (Date (Date_parse h (textContent el)))))
       \<and> (getElementsByTagName (Inr xml) ''cp:coreProperties'' = [] \<and>
          getElementsByTagName (Inr xml) ''office:meta'' = om # oms \<and>
          getElementsByTagName (Inl om) ''dc:date'' = el # els \<longrightarrow>
            map_option modified (parseOfficeMetadata h xmlContent) =
              Some (Some (Date (Date_parse h (textContent el)))))"
proof (intro conjI impI)
  assume a: "getElementsByTagName (Inr xml) ''cp:coreProperties'' = cp # cps \<and>
    getElementsByTagName (Inl cp) ''dcterms:created'' = el # els"
  then show "map_option created (parseOfficeMetadata h xmlContent) =
      Some (Some (Date (Date_parse h (textContent el))))"
    using parseOfficeMetadata_core [OF assms(1), of cp cps] truthyText_first [OF _ assms(2)]
    by (simp add: corePropertiesFields_empty newDate_def)
next
  assume a: "getElementsByTagName (Inr xml) ''cp:coreProperties'' = cp # cps \<and>
    getElementsByTagName (Inl cp) ''dcterms:modified'' = el # els"
  then show "map_option modified (parseOfficeMetadata h xmlContent) =
      Some (Some (Date (Date_parse h (textContent el))))"
    using parseOfficeMetadata_core [OF assms(1), of cp cps] truthyText_first [OF _ assms(2)]
    by (simp add: corePropertiesFields_empty newDate_def)
next
  assume a: "getElementsByTagName (Inr xml) ''cp:coreProperties'' = [] \<and>
    getElementsByTagName (Inr xml) ''office:meta'' = om # oms \<and>
    getElementsByTagName (Inl om) ''meta:creation-date'' = el # els"
  then show "map_option created (parseOfficeMetadata h xmlContent) =
      Some (Some (Date (Date_parse h (textContent el))))"
    using parseOfficeMetadata_odf [OF assms(1), of om oms] truthyText_first [OF _ assms(2)]
    by (simp add: officeMetaFields_empty newDate_def)
next
  assume a: "getElementsByTagName (Inr xml) ''cp:coreProperties'' = [] \<and>
    getElementsByTagName (Inr xml) ''office:meta'' = om # oms \<and>
    getElementsByTagName (Inl om) ''dc:date'' = el # els"
  then show "map_option modified (parseOfficeMetadata h xmlContent) =
      Some (Some (Date (Date_parse h (textContent el))))"
    using parseOfficeMetadata_odf [OF assms(1), of om oms] truthyText_first [OF _ assms(2)]
    by (simp add: officeMetaFields_empty newDate_def)
qed

text \<open>The texts \<^verbatim>\<open>yesterday\<close> and \<^verbatim>\<open>last week\<close> do not parse and the fields hold the
  invalid date; the other two hold the time value of the timestamp.\<close>

theorem timestamps_assigned_without_validity_guard_witness:
  "map_option created (parseOfficeMetadata (exampleHost coreDatesXml coreDatesDoc) coreDatesXml)
     = Some (Some (Date None))
   \<and> map_option modified (parseOfficeMetadata (exampleHost coreDatesXml coreDatesDoc) coreDatesXml)
     = Some (Some (Date (Some 1705314600000)))
   \<and> map_option created (parseOfficeMetadata (exampleHost odfDatesXml odfDatesDoc) odfDatesXml)
     = Some (Some (Date (Some 1705314600000)))
   \<and> map_option modified (parseOfficeMetadata (exampleHost odfDatesXml odfDatesDoc) odfDatesXml)
     = Some (Some (Date None))"
proof -
  let ?h1 = "exampleHost coreDatesXml coreDatesDoc"
  let ?h2 = "exampleHost odfDatesXml odfDatesDoc"
  let ?c = "Element ''dcterms:created'' [] [TextNode ''yesterday'']"
  let ?m = "Element ''dcterms:modified'' [] [TextNode ''2024-01-15T10:30:00Z'']"
  let ?oc = "Element ''meta:creation-date'' [] [TextNode ''2024-01-15T10:30:00Z'']"
  let ?om = "Element ''dc:date'' [] [TextNode ''last week'']"
  let ?cp = "Element ''cp:coreProperties'' [] [?c, ?m]"
  let ?meta = "Element ''office:meta'' [] [?oc, ?om]"
  have core: "getElementsByTagName (Inr coreDatesDoc) ''cp:coreProperties'' = [?cp]"
    and odf: "getElementsByTagName (Inr odfDatesDoc) ''cp:coreProperties'' = []"
      "getElementsByTagName (Inr odfDatesDoc) ''office:meta'' = [?meta]"
    by (simp_all add: getElementsByTagName_def coreDatesDoc_def odfDatesDoc_def)
  have els: "getElementsByTagName (Inl ?cp) ''dcterms:created'' = [?c]"
    "getElementsByTagName (Inl ?cp) ''dcterms:modified'' = [?m]"
    "getElementsByTagName (Inl ?meta) ''meta:creation-date'' = [?oc]"
    "getElementsByTagName (Inl ?meta) ''dc:date'' = [?om]"
    by (simp_all add: getElementsByTagName_def)
  have "map_option created (parseOfficeMetadata ?h1 coreDatesXml) = Some (Some (Date None))"
    using timestamps_assigned_without_validity_guard
      [of ?h1 coreDatesXml coreDatesDoc ?c ?cp "[]" "[]" ?meta "[]"] core els
    by (simp add: exampleDateParse_def)
  moreover have "map_option modified (parseOfficeMetadata ?h1 coreDatesXml)
      = Some (Some (Date (Some 1705314600000)))"
    using timestamps_assigned_without_validity_guard
      [of ?h1 coreDatesXml coreDatesDoc ?m ?cp "[]" "[]" ?meta "[]"] core els
    by (simp add: exampleDateParse_def)
  moreover have "map_option created (parseOfficeMetadata ?h2 odfDatesXml)
      = Some (Some (Date (Some 1705314600000)))"
    using timestamps_assigned_without_validity_guard
      [of ?h2 odfDatesXml odfDatesDoc ?oc ?cp "[]" "[]" ?meta "[]"] odf els
    by (simp add: exampleDateParse_def)
  moreover have "map_option modified (parseOfficeMetadata ?h2 odfDatesXml)
      = Some (Some (Date None))"
    using timestamps_assigned_without_validity_guard
      [of ?h2 odfDatesXml odfDatesDoc ?om ?cp "[]" "[]" ?meta "[]"] odf els
    by (simp add: exampleDateParse_def)
  ultimately show ?thesis by blast
qed

subsection \<open>Typed values\<close>

text \<open>
  C4, as amended. Under a name other than \<^verbatim>\<open>__proto__\<close>: a \<^verbatim>\<open>meta:user-defined\<close> element of
  value type \<^verbatim>\<open>boolean\<close> whose text is not empty, and a \<^verbatim>\<open>property\<close> whose value element has
  a tag that the \<^verbatim>\<open>vt:bool\<close> pattern matches (and the string pattern, tested before it, does
  not), write the Boolean that tells whether the lower-cased text is \<^verbatim>\<open>true\<close>, so any other
  text gives \<open>False\<close>; on the custom path that includes the empty text. A
  \<^verbatim>\<open>meta:user-defined\<close> element whose text is empty is dropped by the guard of line 170,
  whatever its value type: the map stays as it was. The comparison ignores case: it
  holds exactly for the four letters t, r, u, e, each in either case.
\<close>

theorem boolean_decoding_of_decoded_values:
  "(getAttribute el ''meta:name'' = Some name \<and> name \<noteq> [] \<and> name \<noteq> ''__proto__'' \<and>
      textContent el \<noteq> [] \<and> getAttribute el ''meta:value-type'' = Some ''boolean'' \<longrightarrow>
    userDefinedStep h customProps el =
      customProps(name \<mapsto> VBoolean (toLowerCase (textContent el) = ''true'')))
   \<and> (textContent el = [] \<longrightarrow> userDefinedStep h customProps el = customProps)
   \<and> (getAttribute property ''name'' = Some name \<and> name \<noteq> [] \<and> name \<noteq> ''__proto__'' \<and>
      filter (\<lambda>c. nodeType c = 1) (childNodes property) = v # rest \<and>
      regexTest boolPattern (tagName v) \<and> \<not> regexTest stringPattern (tagName v) \<longrightarrow>
    propertyStep h result property =
      result(name \<mapsto> VBoolean (toLowerCase (textContent v) = ''true'')))
   \<and> (toLowerCase s = ''true'' \<longleftrightarrow>
        (\<exists>a b c d. s = [a, b, c, d] \<and> a \<in> {CHR ''t'', CHR ''T''} \<and> b \<in> {CHR ''r'', CHR ''R''} \<and>
           c \<in> {CHR ''u'', CHR ''U''} \<and> d \<in> {CHR ''e'', CHR ''E''}))"
proof (intro conjI impI)
  assume "getAttribute el ''meta:name'' = Some name \<and> name \<noteq> [] \<and> name \<noteq> ''__proto__'' \<and>
      textContent el \<noteq> [] \<and> getAttribute el ''meta:value-type'' = Some ''boolean''"
  then show "userDefinedStep h customProps el =
      customProps(name \<mapsto> VBoolean (toLowerCase (textContent el) = ''true''))"
    by (simp add: userDefinedStep_def assignProperty_def)
next
  assume "textContent el = []"
  then show "userDefinedStep h customProps el = customProps"
    by (simp add: userDefinedStep_skip)
next
  assume a: "getAttribute property ''name'' = Some name \<and> name \<noteq> [] \<and> name \<noteq> ''__proto__'' \<and>
      filter (\<lambda>c. nodeType c = 1) (childNodes property) = v # rest \<and>
      regexTest boolPattern (tagName v) \<and> \<not> regexTest stringPattern (tagName v)"
  then have "propertyStep h result property = assignValue h result name v"
    using propertyStep_value [of property name v rest h result] by simp
  then show "propertyStep h result property =
      result(name \<mapsto> VBoolean (toLowerCase (textContent v) = ''true''))"
    using a by (simp add: assignValue_def assignProperty_def)
next
  show "toLowerCase s = ''true'' \<longleftrightarrow>
        (\<exists>a b c d. s = [a, b, c, d] \<and> a \<in> {CHR ''t'', CHR ''T''} \<and> b \<in> {CHR ''r'', CHR ''R''} \<and>
           c \<in> {CHR ''u'', CHR ''U''} \<and> d \<in> {CHR ''e'', CHR ''E''})"
    by (rule toLowerCase_true)
qed

text \<open>On the ODF path the text \<^verbatim>\<open>no\<close> gives \<open>False\<close> and the empty text leaves the map as
  it was; on the custom path \<^verbatim>\<open>TRUE\<close> gives \<open>True\<close>, and \<^verbatim>\<open>garbage\<close> and the empty text give
  \<open>False\<close>.\<close>

theorem boolean_decoding_of_decoded_values_witness:
  "userDefinedStep (exampleHost odfEmptyBooleanXml odfEmptyBooleanDoc) Map.empty
     (Element ''meta:user-defined'' [(''meta:name'', ''flag''), (''meta:value-type'', ''boolean'')]
        [TextNode ''no''])
     = [''flag'' \<mapsto> VBoolean False]
   \<and> userDefinedStep (exampleHost odfEmptyBooleanXml odfEmptyBooleanDoc) [''k'' \<mapsto> VString ''v'']
     (Element ''meta:user-defined'' [(''meta:name'', ''flag''), (''meta:value-type'', ''boolean'')] [])
     = [''k'' \<mapsto> VString ''v'']
   \<and> propertyStep (exampleHost duplicateXml duplicateDoc) Map.empty
     (Element ''property'' [(''name'', ''b'')] [Element ''vt:bool'' [] [TextNode ''TRUE'']])
     = [''b'' \<mapsto> VBoolean True]
   \<and> propertyStep (exampleHost duplicateXml duplicateDoc) Map.empty
     (Element ''property'' [(''name'', ''g'')] [Element ''vt:bool'' [] [TextNode ''garbage'']])
     = [''g'' \<mapsto> VBoolean False]
   \<and> propertyStep (exampleHost duplicateXml duplicateDoc) Map.empty
     (Element ''property'' [(''name'', ''e'')] [Element ''vt:bool'' [] []])
     = [''e'' \<mapsto> VBoolean False]"
proof -
  let ?h1 = "exampleHost odfEmptyBooleanXml odfEmptyBooleanDoc"
  let ?h2 = "exampleHost duplicateXml duplicateDoc"
  let ?flag = "Element ''meta:user-defined''
      [(''meta:name'', ''flag''), (''meta:value-type'', ''boolean'')] [TextNode ''no'']"
  let ?blank = "Element ''meta:user-defined''
      [(''meta:name'', ''flag''), (''meta:value-type'', ''boolean'')] []"
  let ?vb = "Element ''vt:bool'' [] [TextNode ''TRUE'']"
  let ?vg = "Element ''vt:bool'' [] [TextNode ''garbage'']"
  let ?ve = "Element ''vt:bool'' [] []"
  let ?b = "Element ''property'' [(''name'', ''b'')] [?vb]"
  let ?g = "Element ''property'' [(''name'', ''g'')] [?vg]"
  let ?e = "Element ''property'' [(''name'', ''e'')] [?ve]"
  have "userDefinedStep ?h1 Map.empty ?flag = [''flag'' \<mapsto> VBoolean False]"
    using boolean_decoding_of_decoded_values
      [where el = ?flag and name = "''flag''" and h = ?h1 and customProps = Map.empty
         and property = ?b and v = ?vb and rest = "[]" and result = Map.empty and s = "''no''"]
    by (simp add: pattern_defs)
  moreover have "userDefinedStep ?h1 [''k'' \<mapsto> VString ''v''] ?blank = [''k'' \<mapsto> VString ''v'']"
    using boolean_decoding_of_decoded_values
      [where el = ?blank and name = "''flag''" and h = ?h1
         and customProps = "[''k'' \<mapsto> VString ''v'']"
         and property = ?b and v = ?vb and rest = "[]" and result = Map.empty and s = "[]",
         THEN conjunct2, THEN conjunct1]
    by simp
  moreover have "propertyStep ?h2 Map.empty ?b = [''b'' \<mapsto> VBoolean True]"
    using boolean_decoding_of_decoded_values
      [where el = ?flag and name = "''b''" and h = ?h2 and customProps = Map.empty
         and property = ?b and v = ?vb and rest = "[]" and result = Map.empty and s = "''TRUE''"]
    by (simp add: pattern_defs)
  moreover have "propertyStep ?h2 Map.empty ?g = [''g'' \<mapsto> VBoolean False]"
    using boolean_decoding_of_decoded_values
      [where el = ?flag and name = "''g''" and h = ?h2 and customProps = Map.empty
         and property = ?g and v = ?vg and rest = "[]" and result = Map.empty
         and s = "''garbage''"]
    by (simp add: pattern_defs)
  moreover have "propertyStep ?h2 Map.empty ?e = [''e'' \<mapsto> VBoolean False]"
    using boolean_decoding_of_decoded_values
      [where el = ?flag and name = "''e''" and h = ?h2 and customProps = Map.empty
         and property = ?e and v = ?ve and rest = "[]" and result = Map.empty and s = "[]"]
    by (simp add: pattern_defs)
  ultimately show ?thesis by blast
qed

text \<open>
  The claim as it is stated, for every value of type \<^verbatim>\<open>boolean\<close>, fails on the ODF path
  where the text is empty: the user-defined element of the example has a name, the value
  type \<^verbatim>\<open>boolean\<close> and no text, which is not \<^verbatim>\<open>true\<close>; it is dropped, no \<open>False\<close> is
  written, and the record has no \<^verbatim>\<open>customProperties\<close>.
\<close>

theorem boolean_empty_text_dropped_counterexample:
  "getElementsByTagName (Inr odfEmptyBooleanDoc) ''cp:coreProperties'' = []
   \<and> getElementsByTagName (Inr odfEmptyBooleanDoc) ''meta:user-defined'' =
       [Element ''meta:user-defined''
          [(''meta:name'', ''flag''), (''meta:value-type'', ''boolean'')] []]
   \<and> getAttribute
       (Element ''meta:user-defined''
          [(''meta:name'', ''flag''), (''meta:value-type'', ''boolean'')] []) ''meta:name''
       = Some ''flag''
   \<and> getAttribute
       (Element ''meta:user-defined''
          [(''meta:name'', ''flag''), (''meta:value-type'', ''boolean'')] []) ''meta:value-type''
       = Some ''boolean''
   \<and> textContent
       (Element ''meta:user-defined''
          [(''meta:name'', ''flag''), (''meta:value-type'', ''boolean'')] []) = []
   \<and> map_option (\<lambda>md. customProperty md ''flag'')
       (parseOfficeMetadata (exampleHost odfEmptyBooleanXml odfEmptyBooleanDoc)
          odfEmptyBooleanXml)
       = Some None
   \<and> map_option customProperties
       (parseOfficeMetadata (exampleHost odfEmptyBooleanXml odfEmptyBooleanDoc)
          odfEmptyBooleanXml)
       = Some None"
proof -
  let ?h = "exampleHost odfEmptyBooleanXml odfEmptyBooleanDoc"
  let ?flag = "Element ''meta:user-defined''
      [(''meta:name'', ''flag''), (''meta:value-type'', ''boolean'')] []"
  let ?om = "Element ''office:meta''
      [(''xmlns:office'', ''urn:oasis:names:tc:opendocument:xmlns:office:1.0''),
       (''xmlns:meta'', ''urn:oasis:names:tc:opendocument:xmlns:meta:1.0'')] [?flag]"
  have c: "getElementsByTagName (Inr odfEmptyBooleanDoc) ''cp:coreProperties'' = []"
    and o: "getElementsByTagName (Inr odfEmptyBooleanDoc) ''office:meta'' = [?om]"
    and u: "getElementsByTagName (Inr odfEmptyBooleanDoc) ''meta:user-defined'' = [?flag]"
    by (simp_all add: getElementsByTagName_def odfEmptyBooleanDoc_def)
  have uds: "getElementsByTagName (Inl ?om) ''meta:user-defined'' = [?flag]"
    by (simp add: getElementsByTagName_def)
  have step: "userDefinedStep ?h Map.empty ?flag = Map.empty"
    by (simp add: userDefinedStep_skip)
  have "map_option (\<lambda>md. customProperty md ''flag'') (parseOfficeMetadata ?h odfEmptyBooleanXml)
      = Some None"
    using odf_lookup [OF parse_example [of odfEmptyBooleanXml odfEmptyBooleanDoc] c o,
        of "''flag''"]
    by (simp add: uds step)
  moreover have "map_option customProperties (parseOfficeMetadata ?h odfEmptyBooleanXml)
      = Some None"
    using parseOfficeMetadata_odf [OF parse_example [of odfEmptyBooleanXml odfEmptyBooleanDoc] c o]
    by (simp add: officeMetaFields_empty uds step)
  ultimately show ?thesis
    using c u by simp
qed

text \<open>
  C2, as amended. A property element whose first element child has a numeric tag and a
  text that is not a number writes nothing: the map stays as the elements before it left
  it, with no zero and no default; likewise a user-defined element of value type
  \<^verbatim>\<open>float\<close>. The name is therefore absent from the returned map when no other element
  decodes to a value under it.
\<close>

theorem failed_number_writes_nothing:
  assumes "isNaN (Number (textContent v))"
  shows "(getAttribute property ''name'' = Some name \<and>
          filter (\<lambda>c. nodeType c = 1) (childNodes property) = v # rest \<and>
          tagName v \<in> set numberPattern \<longrightarrow>
            propertyStep h result property = result)
       \<and> (getAttribute v ''meta:value-type'' = Some ''float'' \<longrightarrow>
            userDefinedStep h customProps v = customProps)
       \<and> (parseXmlString h xmlContent = Some xml \<and>
          getAttribute property ''name'' = Some name \<and>
          filter (\<lambda>c. nodeType c = 1) (childNodes property) = v # rest \<and>
          tagName v \<in> set numberPattern \<and>
          (\<forall>p\<in>set (getElementsByTagName (Inr xml) ''property'').
             p = property \<or> propertyStep h Map.empty p name = None) \<longrightarrow>
            map_option (\<lambda>result. result name) (parseOOXMLCustomProperties h xmlContent) =
              Some None)
       \<and> (parseXmlString h xmlContent = Some xml \<and>
          getElementsByTagName (Inr xml) ''cp:coreProperties'' = [] \<and>
          getElementsByTagName (Inr xml) ''office:meta'' = officeMeta # others \<and>
          getAttribute v ''meta:value-type'' = Some ''float'' \<and>
          (\<forall>e\<in>set (getElementsByTagName (Inl officeMeta) ''meta:user-defined'').
             e = v \<or> userDefinedStep h Map.empty e name = None) \<longrightarrow>
            map_option (\<lambda>md. customProperty md name) (parseOfficeMetadata h xmlContent) =
              Some None)"
proof (intro conjI impI)
  assume "getAttribute property ''name'' = Some name \<and>
      filter (\<lambda>c. nodeType c = 1) (childNodes property) = v # rest \<and>
      tagName v \<in> set numberPattern"
  then show "propertyStep h result property = result"
    using failed_number_custom_step [OF assms, of property name rest h result] by simp
next
  assume "getAttribute v ''meta:value-type'' = Some ''float''"
  then show "userDefinedStep h customProps v = customProps"
    by (rule failed_number_odf_step [OF assms])
next
  assume a: "parseXmlString h xmlContent = Some xml \<and>
      getAttribute property ''name'' = Some name \<and>
      filter (\<lambda>c. nodeType c = 1) (childNodes property) = v # rest \<and>
      tagName v \<in> set numberPattern \<and>
      (\<forall>p\<in>set (getElementsByTagName (Inr xml) ''property'').
         p = property \<or> propertyStep h Map.empty p name = None)"
  then have "propertyStep h Map.empty property = Map.empty"
    using failed_number_custom_step [OF assms, of property name rest h Map.empty] by simp
  then have "\<forall>p\<in>set (getElementsByTagName (Inr xml) ''property'').
      propertyStep h Map.empty p name = None"
    using a by auto
  then show "map_option (\<lambda>result. result name) (parseOOXMLCustomProperties h xmlContent) =
      Some None"
    using a custom_lookup_absent [of h xmlContent xml name] by simp
next
  assume a: "parseXmlString h xmlContent = Some xml \<and>
      getElementsByTagName (Inr xml) ''cp:coreProperties'' = [] \<and>
      getElementsByTagName (Inr xml) ''office:meta'' = officeMeta # others \<and>
      getAttribute v ''meta:value-type'' = Some ''float'' \<and>
      (\<forall>e\<in>set (getElementsByTagName (Inl officeMeta) ''meta:user-defined'').
         e = v \<or> userDefinedStep h Map.empty e name = None)"
  then have "userDefinedStep h Map.empty v = Map.empty"
    using failed_number_odf_step [OF assms, of h Map.empty] by simp
  then have none: "\<forall>e\<in>set (getElementsByTagName (Inl officeMeta) ''meta:user-defined'').
      userDefinedStep h Map.empty e name = None"
    using a by auto
  show "map_option (\<lambda>md. customProperty md name) (parseOfficeMetadata h xmlContent) = Some None"
    using a odf_lookup [of h xmlContent xml officeMeta others name]
      foldl_no_write [of "userDefinedStep h" _ name Map.empty, OF userDefinedStep_add none]
    by simp
qed

text \<open>A failed number leaves an earlier value of the same name in place, and a name
  that nothing else writes is absent, on both paths.\<close>

theorem failed_number_writes_nothing_witness:
  "propertyStep (exampleHost earlierValueXml earlierValueDoc) [''a'' \<mapsto> VNumber (Finite 1)]
     (Element ''property'' [(''name'', ''a'')] [Element ''vt:r8'' [] [TextNode ''abc'']])
     = [''a'' \<mapsto> VNumber (Finite 1)]
   \<and> userDefinedStep (exampleHost odfNothingDecodedXml odfNothingDecodedDoc)
       [''ratio'' \<mapsto> VNumber (Finite 1)]
       (Element ''meta:user-defined'' [(''meta:name'', ''ratio''), (''meta:value-type'', ''float'')]
          [TextNode ''abc''])
     = [''ratio'' \<mapsto> VNumber (Finite 1)]
   \<and> map_option (\<lambda>result. result ''a'')
       (parseOOXMLCustomProperties (exampleHost failedNumberXml failedNumberDoc) failedNumberXml)
     = Some None
   \<and> map_option (\<lambda>md. customProperty md ''ratio'')
       (parseOfficeMetadata (exampleHost odfNothingDecodedXml odfNothingDecodedDoc)
          odfNothingDecodedXml)
     = Some None"
proof -
  let ?h0 = "exampleHost earlierValueXml earlierValueDoc"
  let ?h1 = "exampleHost failedNumberXml failedNumberDoc"
  let ?h2 = "exampleHost odfNothingDecodedXml odfNothingDecodedDoc"
  let ?v = "Element ''vt:r8'' [] [TextNode ''abc'']"
  let ?a = "Element ''property'' [(''name'', ''a'')] [?v]"
  let ?b = "Element ''property'' [(''name'', ''b'')] [Element ''vt:lpwstr'' [] [TextNode ''x'']]"
  let ?ratio = "Element ''meta:user-defined''
      [(''meta:name'', ''ratio''), (''meta:value-type'', ''float'')] [TextNode ''abc'']"
  let ?empty = "Element ''meta:user-defined'' [(''meta:name'', ''empty'')] []"
  let ?om = "Element ''office:meta'' [] [Element ''dc:title'' [] [TextNode ''Plan''], ?ratio, ?empty]"
  have nan: "isNaN (Number (textContent ?v))" "isNaN (Number (textContent ?ratio))"
    by (simp_all add: Number_abc isNaN_def)
  have props: "getElementsByTagName (Inr failedNumberDoc) ''property'' = [?a, ?b]"
    and c: "getElementsByTagName (Inr odfNothingDecodedDoc) ''cp:coreProperties'' = []"
    and o: "getElementsByTagName (Inr odfNothingDecodedDoc) ''office:meta'' = [?om]"
    by (simp_all add: getElementsByTagName_def failedNumberDoc_def odfNothingDecodedDoc_def)
  have uds: "getElementsByTagName (Inl ?om) ''meta:user-defined'' = [?ratio, ?empty]"
    by (simp add: getElementsByTagName_def)
  have tag: "tagName ?v \<in> set numberPattern"
    by (simp add: numberPattern_def)
  have "propertyStep ?h0 [''a'' \<mapsto> VNumber (Finite 1)] ?a = [''a'' \<mapsto> VNumber (Finite 1)]"
    using failed_number_writes_nothing
      [OF nan(1), where h = ?h0 and name = "''a''" and rest = "[]"
         and result = "[''a'' \<mapsto> VNumber (Finite 1)]" and property = ?a, THEN conjunct1] tag
    by simp
  moreover have "userDefinedStep ?h2 [''ratio'' \<mapsto> VNumber (Finite 1)] ?ratio
      = [''ratio'' \<mapsto> VNumber (Finite 1)]"
    using failed_number_writes_nothing
      [OF nan(2), where h = ?h2 and customProps = "[''ratio'' \<mapsto> VNumber (Finite 1)]",
         THEN conjunct2, THEN conjunct1]
    by simp
  moreover have "map_option (\<lambda>result. result ''a'')
      (parseOOXMLCustomProperties ?h1 failedNumberXml) = Some None"
    using failed_number_writes_nothing
      [OF nan(1), where h = ?h1 and name = "''a''" and rest = "[]" and property = ?a
         and xmlContent = failedNumberXml and xml = failedNumberDoc,
         THEN conjunct2, THEN conjunct2, THEN conjunct1] tag props
    by (simp add: failedNumberDoc_second)
  moreover have "map_option (\<lambda>md. customProperty md ''ratio'')
      (parseOfficeMetadata ?h2 odfNothingDecodedXml) = Some None"
    using failed_number_writes_nothing
      [OF nan(2), where h = ?h2 and name = "''ratio''" and officeMeta = ?om and others = "[]"
         and xmlContent = odfNothingDecodedXml and xml = odfNothingDecodedDoc,
         THEN conjunct2, THEN conjunct2, THEN conjunct2] c o uds
    by (simp add: userDefined_empty)
  ultimately show ?thesis by blast
qed

text \<open>
  The claim as it is stated, for every document and every such property element, fails
  where an earlier element of the same name has decoded: the second property of the
  example has the numeric tag \<^verbatim>\<open>vt:r8\<close> and the text \<^verbatim>\<open>abc\<close>, and the name \<^verbatim>\<open>a\<close> is
  present in the returned map, with the value 1 of the first.
\<close>

theorem failed_number_name_present_counterexample:
  "getElementsByTagName (Inr earlierValueDoc) ''property'' =
     [Element ''property'' [(''name'', ''a'')] [Element ''vt:i4'' [] [TextNode ''1'']],
      Element ''property'' [(''name'', ''a'')] [Element ''vt:r8'' [] [TextNode ''abc'']]]
   \<and> getAttribute (Element ''property'' [(''name'', ''a'')] [Element ''vt:r8'' [] [TextNode ''abc'']])
       ''name'' = Some ''a''
   \<and> filter (\<lambda>c. nodeType c = 1)
       (childNodes (Element ''property'' [(''name'', ''a'')]
          [Element ''vt:r8'' [] [TextNode ''abc'']]))
       = [Element ''vt:r8'' [] [TextNode ''abc'']]
   \<and> tagName (Element ''vt:r8'' [] [TextNode ''abc'']) \<in> set numberPattern
   \<and> isNaN (Number (textContent (Element ''vt:r8'' [] [TextNode ''abc''])))
   \<and> map_option (\<lambda>result. result ''a'')
       (parseOOXMLCustomProperties (exampleHost earlierValueXml earlierValueDoc) earlierValueXml)
       = Some (Some (VNumber (Finite 1)))"
proof -
  have props: "getElementsByTagName (Inr earlierValueDoc) ''property'' =
     [Element ''property'' [(''name'', ''a'')] [Element ''vt:i4'' [] [TextNode ''1'']],
      Element ''property'' [(''name'', ''a'')] [Element ''vt:r8'' [] [TextNode ''abc'']]]"
    by (simp add: getElementsByTagName_def earlierValueDoc_def)
  have "map_option (\<lambda>result. result ''a'')
       (parseOOXMLCustomProperties (exampleHost earlierValueXml earlierValueDoc) earlierValueXml)
       = Some (Some (VNumber (Finite 1)))"
    using parseOOXMLCustomProperties_lastWriteWins
      [of "exampleHost earlierValueXml earlierValueDoc" earlierValueXml earlierValueDoc]
    by (simp add: props lastWriteWins_def earlierValueDoc_first duplicateDoc_third)
  then show ?thesis
    using props by (simp add: numberPattern_def Number_abc isNaN_def)
qed

text \<open>
  C3, as amended. For an element that the loop decodes (it has a name and, on the ODF
  path, a text that is not empty) under a name other than \<^verbatim>\<open>__proto__\<close>, of value type
  \<^verbatim>\<open>date\<close> or \<^verbatim>\<open>time\<close> on the ODF path, or with a value element whose tag selects the \<^verbatim>\<open>vt:filetime|vt:date\<close> branch on the custom
  path: when the text does not parse as a timestamp, the text itself is written under
  the name, over whatever the map held. The returned map holds that text when no later
  element writes under the name.
\<close>

theorem failed_timestamp_kept_as_text:
  assumes "Date_parse h (textContent v) = None"
  shows "(getAttribute v ''meta:name'' = Some name \<and> name \<noteq> [] \<and> name \<noteq> ''__proto__'' \<and>
          textContent v \<noteq> [] \<and>
          (getAttribute v ''meta:value-type'' = Some ''date'' \<or>
           getAttribute v ''meta:value-type'' = Some ''time'') \<longrightarrow>
            userDefinedStep h customProps v = customProps(name \<mapsto> VString (textContent v)))
       \<and> (getAttribute property ''name'' = Some name \<and> name \<noteq> [] \<and> name \<noteq> ''__proto__'' \<and>
          filter (\<lambda>c. nodeType c = 1) (childNodes property) = v # rest \<and>
          regexTest datePattern (tagName v) \<and> \<not> regexTest stringPattern (tagName v) \<and>
          \<not> regexTest boolPattern (tagName v) \<and> \<not> regexTest numberPattern (tagName v) \<longrightarrow>
            propertyStep h result property = result(name \<mapsto> VString (textContent v)))
       \<and> (parseXmlString h xmlContent = Some xml \<and>
          getElementsByTagName (Inr xml) ''cp:coreProperties'' = [] \<and>
          getElementsByTagName (Inr xml) ''office:meta'' = officeMeta # others \<and>
          getElementsByTagName (Inl officeMeta) ''meta:user-defined'' = before @ v # after \<and>
          getAttribute v ''meta:name'' = Some name \<and> name \<noteq> [] \<and> name \<noteq> ''__proto__'' \<and>
          textContent v \<noteq> [] \<and>
          (getAttribute v ''meta:value-type'' = Some ''date'' \<or>
           getAttribute v ''meta:value-type'' = Some ''time'') \<and>
          (\<forall>e\<in>set after. userDefinedStep h Map.empty e name = None) \<longrightarrow>
            map_option (\<lambda>md. customProperty md name) (parseOfficeMetadata h xmlContent) =
              Some (Some (VString (textContent v))))
       \<and> (parseXmlString h xmlContent = Some xml \<and>
          getElementsByTagName (Inr xml) ''property'' = before @ property # after \<and>
          getAttribute property ''name'' = Some name \<and> name \<noteq> [] \<and> name \<noteq> ''__proto__'' \<and>
          filter (\<lambda>c. nodeType c = 1) (childNodes property) = v # rest \<and>
          regexTest datePattern (tagName v) \<and> \<not> regexTest stringPattern (tagName v) \<and>
          \<not> regexTest boolPattern (tagName v) \<and> \<not> regexTest numberPattern (tagName v) \<and>
          (\<forall>p\<in>set after. propertyStep h Map.empty p name = None) \<longrightarrow>
            map_option (\<lambda>result. result name) (parseOOXMLCustomProperties h xmlContent) =
              Some (Some (VString (textContent v))))"
proof (intro conjI impI)
  assume "getAttribute v ''meta:name'' = Some name \<and> name \<noteq> [] \<and> name \<noteq> ''__proto__'' \<and>
      textContent v \<noteq> [] \<and>
      (getAttribute v ''meta:value-type'' = Some ''date'' \<or>
       getAttribute v ''meta:value-type'' = Some ''time'')"
  then show "userDefinedStep h customProps v = customProps(name \<mapsto> VString (textContent v))"
    using failed_timestamp_odf_step [OF assms, of name customProps] by blast
next
  assume "getAttribute property ''name'' = Some name \<and> name \<noteq> [] \<and> name \<noteq> ''__proto__'' \<and>
      filter (\<lambda>c. nodeType c = 1) (childNodes property) = v # rest \<and>
      regexTest datePattern (tagName v) \<and> \<not> regexTest stringPattern (tagName v) \<and>
      \<not> regexTest boolPattern (tagName v) \<and> \<not> regexTest numberPattern (tagName v)"
  then show "propertyStep h result property = result(name \<mapsto> VString (textContent v))"
    using failed_timestamp_custom_step [OF assms, of property name rest result] by blast
next
  assume a: "parseXmlString h xmlContent = Some xml \<and>
      getElementsByTagName (Inr xml) ''cp:coreProperties'' = [] \<and>
      getElementsByTagName (Inr xml) ''office:meta'' = officeMeta # others \<and>
      getElementsByTagName (Inl officeMeta) ''meta:user-defined'' = before @ v # after \<and>
      getAttribute v ''meta:name'' = Some name \<and> name \<noteq> [] \<and> name \<noteq> ''__proto__'' \<and>
      textContent v \<noteq> [] \<and>
      (getAttribute v ''meta:value-type'' = Some ''date'' \<or>
       getAttribute v ''meta:value-type'' = Some ''time'') \<and>
      (\<forall>e\<in>set after. userDefinedStep h Map.empty e name = None)"
  then have "userDefinedStep h acc v = acc(name \<mapsto> VString (textContent v))" for acc
    using failed_timestamp_odf_step [OF assms, of name acc] by blast
  then show "map_option (\<lambda>md. customProperty md name) (parseOfficeMetadata h xmlContent) =
      Some (Some (VString (textContent v)))"
    using a odf_lookup_after [of h xmlContent xml officeMeta others before v after name]
    by simp
next
  assume a: "parseXmlString h xmlContent = Some xml \<and>
      getElementsByTagName (Inr xml) ''property'' = before @ property # after \<and>
      getAttribute property ''name'' = Some name \<and> name \<noteq> [] \<and> name \<noteq> ''__proto__'' \<and>
      filter (\<lambda>c. nodeType c = 1) (childNodes property) = v # rest \<and>
      regexTest datePattern (tagName v) \<and> \<not> regexTest stringPattern (tagName v) \<and>
      \<not> regexTest boolPattern (tagName v) \<and> \<not> regexTest numberPattern (tagName v) \<and>
      (\<forall>p\<in>set after. propertyStep h Map.empty p name = None)"
  then have "propertyStep h acc property = acc(name \<mapsto> VString (textContent v))" for acc
    using failed_timestamp_custom_step [OF assms, of property name rest acc] by blast
  then show "map_option (\<lambda>result. result name) (parseOOXMLCustomProperties h xmlContent) =
      Some (Some (VString (textContent v)))"
    using a custom_lookup_after [of h xmlContent xml before property after name]
    by simp
qed

text \<open>The text \<^verbatim>\<open>not-a-date\<close> is kept as it is, on both paths.\<close>

theorem failed_timestamp_kept_as_text_witness:
  "userDefinedStep (exampleHost odfFailedDateXml odfFailedDateDoc) [''d'' \<mapsto> VBoolean True]
     (Element ''meta:user-defined'' [(''meta:name'', ''d''), (''meta:value-type'', ''date'')]
        [TextNode ''not-a-date''])
     = [''d'' \<mapsto> VString ''not-a-date'']
   \<and> propertyStep (exampleHost failedDateXml failedDateDoc) [''d'' \<mapsto> VBoolean True]
     (Element ''property'' [(''name'', ''d'')] [Element ''vt:filetime'' [] [TextNode ''not-a-date'']])
     = [''d'' \<mapsto> VString ''not-a-date'']
   \<and> map_option (\<lambda>md. customProperty md ''d'')
       (parseOfficeMetadata (exampleHost odfFailedDateXml odfFailedDateDoc) odfFailedDateXml)
     = Some (Some (VString ''not-a-date''))
   \<and> map_option (\<lambda>result. result ''d'')
       (parseOOXMLCustomProperties (exampleHost failedDateXml failedDateDoc) failedDateXml)
     = Some (Some (VString ''not-a-date''))"
proof -
  let ?h1 = "exampleHost odfFailedDateXml odfFailedDateDoc"
  let ?h2 = "exampleHost failedDateXml failedDateDoc"
  let ?ud = "Element ''meta:user-defined''
      [(''meta:name'', ''d''), (''meta:value-type'', ''date'')] [TextNode ''not-a-date'']"
  let ?un = "Element ''meta:user-defined'' [(''meta:name'', ''n'')] [TextNode ''x'']"
  let ?om = "Element ''office:meta'' [] [?ud, ?un]"
  let ?v = "Element ''vt:filetime'' [] [TextNode ''not-a-date'']"
  let ?d = "Element ''property'' [(''name'', ''d'')] [?v]"
  let ?e = "Element ''property'' [(''name'', ''e'')]
      [Element ''vt:date'' [] [TextNode ''2024-01-15T10:30:00Z'']]"
  have p1: "Date_parse ?h1 (textContent ?ud) = None" and p2: "Date_parse ?h2 (textContent ?v) = None"
    by (simp_all add: exampleDateParse_def)
  have c: "getElementsByTagName (Inr odfFailedDateDoc) ''cp:coreProperties'' = []"
    and o: "getElementsByTagName (Inr odfFailedDateDoc) ''office:meta'' = [?om]"
    and props: "getElementsByTagName (Inr failedDateDoc) ''property'' = [] @ ?d # [?e]"
    by (simp_all add: getElementsByTagName_def odfFailedDateDoc_def failedDateDoc_def)
  have uds: "getElementsByTagName (Inl ?om) ''meta:user-defined'' = [] @ ?ud # [?un]"
    by (simp add: getElementsByTagName_def)
  have tag: "regexTest datePattern (tagName ?v)" "\<not> regexTest stringPattern (tagName ?v)"
    "\<not> regexTest boolPattern (tagName ?v)" "\<not> regexTest numberPattern (tagName ?v)"
    by (simp_all add: pattern_defs)
  have "userDefinedStep ?h1 [''d'' \<mapsto> VBoolean True] ?ud = [''d'' \<mapsto> VString ''not-a-date'']"
    using failed_timestamp_kept_as_text
      [OF p1, where name = "''d''" and customProps = "[''d'' \<mapsto> VBoolean True]",
         THEN conjunct1]
    by simp
  moreover have "propertyStep ?h2 [''d'' \<mapsto> VBoolean True] ?d = [''d'' \<mapsto> VString ''not-a-date'']"
    using failed_timestamp_kept_as_text
      [OF p2, where name = "''d''" and result = "[''d'' \<mapsto> VBoolean True]" and property = ?d
         and rest = "[]", THEN conjunct2, THEN conjunct1] tag
    by simp
  moreover have "map_option (\<lambda>md. customProperty md ''d'')
      (parseOfficeMetadata ?h1 odfFailedDateXml) = Some (Some (VString ''not-a-date''))"
    using failed_timestamp_kept_as_text
      [OF p1, where name = "''d''" and xmlContent = odfFailedDateXml and xml = odfFailedDateDoc
         and officeMeta = ?om and others = "[]" and before = "[]" and after = "[?un]",
         THEN conjunct2, THEN conjunct2, THEN conjunct1] c o uds
    by (simp add: userDefined_plain)
  moreover have "map_option (\<lambda>result. result ''d'')
      (parseOOXMLCustomProperties ?h2 failedDateXml) = Some (Some (VString ''not-a-date''))"
    using failed_timestamp_kept_as_text
      [OF p2, where name = "''d''" and xmlContent = failedDateXml and xml = failedDateDoc
         and property = ?d and rest = "[]" and before = "[]" and after = "[?e]",
         THEN conjunct2, THEN conjunct2, THEN conjunct2] props tag
    by (simp add: failedDateDoc_second)
  ultimately show ?thesis by blast
qed

text \<open>
  The claim as it is stated, for every such property, fails where a later element of the
  same name decodes: the first user-defined element of the example is a \<^verbatim>\<open>date\<close> with
  the text \<^verbatim>\<open>not-a-date\<close>, and the returned map holds \<^verbatim>\<open>x\<close> under its name, the text of
  the second.
\<close>

theorem failed_timestamp_overwritten_counterexample:
  "getElementsByTagName (Inr odfOverwrittenDateDoc) ''cp:coreProperties'' = []
   \<and> getElementsByTagName (Inr odfOverwrittenDateDoc) ''meta:user-defined'' =
       [Element ''meta:user-defined'' [(''meta:name'', ''d''), (''meta:value-type'', ''date'')]
          [TextNode ''not-a-date''],
        Element ''meta:user-defined'' [(''meta:name'', ''d'')] [TextNode ''x'']]
   \<and> getAttribute
       (Element ''meta:user-defined'' [(''meta:name'', ''d''), (''meta:value-type'', ''date'')]
          [TextNode ''not-a-date'']) ''meta:name'' = Some ''d''
   \<and> getAttribute
       (Element ''meta:user-defined'' [(''meta:name'', ''d''), (''meta:value-type'', ''date'')]
          [TextNode ''not-a-date'']) ''meta:value-type'' = Some ''date''
   \<and> textContent
       (Element ''meta:user-defined'' [(''meta:name'', ''d''), (''meta:value-type'', ''date'')]
          [TextNode ''not-a-date'']) = ''not-a-date''
   \<and> Date_parse (exampleHost odfOverwrittenDateXml odfOverwrittenDateDoc) ''not-a-date'' = None
   \<and> map_option (\<lambda>md. customProperty md ''d'')
       (parseOfficeMetadata (exampleHost odfOverwrittenDateXml odfOverwrittenDateDoc)
          odfOverwrittenDateXml)
       = Some (Some (VString ''x''))"
proof -
  let ?h = "exampleHost odfOverwrittenDateXml odfOverwrittenDateDoc"
  let ?ud = "Element ''meta:user-defined''
      [(''meta:name'', ''d''), (''meta:value-type'', ''date'')] [TextNode ''not-a-date'']"
  let ?ux = "Element ''meta:user-defined'' [(''meta:name'', ''d'')] [TextNode ''x'']"
  let ?om = "Element ''office:meta'' [] [?ud, ?ux]"
  have c: "getElementsByTagName (Inr odfOverwrittenDateDoc) ''cp:coreProperties'' = []"
    and o: "getElementsByTagName (Inr odfOverwrittenDateDoc) ''office:meta'' = [?om]"
    and u: "getElementsByTagName (Inr odfOverwrittenDateDoc) ''meta:user-defined'' = [?ud, ?ux]"
    by (simp_all add: getElementsByTagName_def odfOverwrittenDateDoc_def)
  have uds: "getElementsByTagName (Inl ?om) ''meta:user-defined'' = [?ud, ?ux]"
    by (simp add: getElementsByTagName_def)
  have "map_option (\<lambda>md. customProperty md ''d'') (parseOfficeMetadata ?h odfOverwrittenDateXml)
      = Some (Some (VString ''x''))"
    using odf_lookup [OF parse_example [of odfOverwrittenDateXml odfOverwrittenDateDoc] c o,
        of "''d''"]
    by (simp add: uds userDefined_failed_date userDefined_plain)
  then show ?thesis
    using c u by (simp add: exampleDateParse_def)
qed

subsection \<open>Properties named \<^verbatim>\<open>__proto__\<close>\<close>

text \<open>
  The two loops assign \<^verbatim>\<open>obj[name] = value\<close> with no test of the name (lines 174 to 183
  and 236 to 248), into objects made by the literal \<^verbatim>\<open>{}\<close>. For the name \<^verbatim>\<open>__proto__\<close> the
  assignment gives the object no property of its own, so a property of that name never
  reaches the result, although the function is documented to return a record of
  property name to typed value (lines 196 to 208). The three theorems below evaluate the
  decoders on documents with such a property.
\<close>

text \<open>
  C5, at a property named \<^verbatim>\<open>__proto__\<close>: its value element has the numeric tag \<^verbatim>\<open>vt:i4\<close> and
  the text is one space, which \<^verbatim>\<open>Number\<close> converts to 0 (so the test of line 241 passes),
  yet the returned map is empty: no entry with the number 0 is inserted.
\<close>

theorem blank_number_named_proto_is_not_inserted:
  "getElementsByTagName (Inr protoBlankNumberDoc) ''property'' =
     [Element ''property'' [(''name'', ''__proto__'')] [Element ''vt:i4'' [] [TextNode '' '']]]
   \<and> getAttribute
       (Element ''property'' [(''name'', ''__proto__'')] [Element ''vt:i4'' [] [TextNode '' '']])
       ''name'' = Some ''__proto__''
   \<and> filter (\<lambda>c. nodeType c = 1)
       (childNodes (Element ''property'' [(''name'', ''__proto__'')]
          [Element ''vt:i4'' [] [TextNode '' '']]))
       = [Element ''vt:i4'' [] [TextNode '' '']]
   \<and> tagName (Element ''vt:i4'' [] [TextNode '' '']) \<in> set numberPattern
   \<and> Number (textContent (Element ''vt:i4'' [] [TextNode '' ''])) = Finite 0
   \<and> parseOOXMLCustomProperties (exampleHost protoBlankNumberXml protoBlankNumberDoc)
       protoBlankNumberXml = Some Map.empty"
proof -
  let ?p = "Element ''property'' [(''name'', ''__proto__'')] [Element ''vt:i4'' [] [TextNode '' '']]"
  have props: "getElementsByTagName (Inr protoBlankNumberDoc) ''property'' = [?p]"
    by (simp add: getElementsByTagName_def protoBlankNumberDoc_def)
  have blank:
    "\<forall>c\<in>set (textContent (Element ''vt:i4'' [] [TextNode '' ''])). isStrWhiteSpaceChar c"
    by (simp add: isStrWhiteSpaceChar_def)
  have zero: "Number '' '' = Finite 0"
    using Number_blank [OF blank] by simp
  have step: "propertyStep h Map.empty ?p = Map.empty" for h
    using blank_number_custom_step [OF _ _ _ _ blank, of ?p "''__proto__''" "[]" h Map.empty]
    by (simp add: numberPattern_def assignProperty_def)
  have "parseOOXMLCustomProperties (exampleHost protoBlankNumberXml protoBlankNumberDoc)
      protoBlankNumberXml = Some Map.empty"
    by (simp add: parseOOXMLCustomProperties_def props step)
  then show ?thesis
    using props zero by (simp add: numberPattern_def)
qed

text \<open>
  C7, at two properties named \<^verbatim>\<open>__proto__\<close>: the first has a \<^verbatim>\<open>vt:lpwstr\<close> value with the
  text \<^verbatim>\<open>one\<close>, the second a \<^verbatim>\<open>vt:i4\<close> value whose text \<^verbatim>\<open>2\<close> converts to the number 2. The
  returned map is empty: it holds the value of neither, so not that of the later one.
\<close>

theorem duplicates_named_proto_are_not_inserted:
  "getElementsByTagName (Inr protoDuplicateDoc) ''property'' =
     [Element ''property'' [(''name'', ''__proto__'')] [Element ''vt:lpwstr'' [] [TextNode ''one'']],
      Element ''property'' [(''name'', ''__proto__'')] [Element ''vt:i4'' [] [TextNode ''2'']]]
   \<and> getAttribute
       (Element ''property'' [(''name'', ''__proto__'')] [Element ''vt:lpwstr'' [] [TextNode ''one'']])
       ''name'' = Some ''__proto__''
   \<and> getAttribute
       (Element ''property'' [(''name'', ''__proto__'')] [Element ''vt:i4'' [] [TextNode ''2'']])
       ''name'' = Some ''__proto__''
   \<and> regexTest stringPattern (tagName (Element ''vt:lpwstr'' [] [TextNode ''one'']))
   \<and> tagName (Element ''vt:i4'' [] [TextNode ''2'']) \<in> set numberPattern
   \<and> Number (textContent (Element ''vt:i4'' [] [TextNode ''2''])) = Finite 2
   \<and> parseOOXMLCustomProperties (exampleHost protoDuplicateXml protoDuplicateDoc)
       protoDuplicateXml = Some Map.empty"
proof -
  let ?p1 = "Element ''property'' [(''name'', ''__proto__'')]
      [Element ''vt:lpwstr'' [] [TextNode ''one'']]"
  let ?p2 = "Element ''property'' [(''name'', ''__proto__'')] [Element ''vt:i4'' [] [TextNode ''2'']]"
  have props: "getElementsByTagName (Inr protoDuplicateDoc) ''property'' = [?p1, ?p2]"
    by (simp add: getElementsByTagName_def protoDuplicateDoc_def)
  have two: "Number ''2'' = Finite 2"
    by (simp add: Number_defs)
  have step: "propertyStep h acc ?p1 = acc" "propertyStep h acc ?p2 = acc" for h acc
    by (simp_all add: propertyStep_def assignValue_def assignProperty_def pattern_defs two isNaN_def)
  have "parseOOXMLCustomProperties (exampleHost protoDuplicateXml protoDuplicateDoc)
      protoDuplicateXml = Some Map.empty"
    by (simp add: parseOOXMLCustomProperties_def props step)
  then show ?thesis
    using props two by (simp add: pattern_defs)
qed

text \<open>
  C8, at a \<^verbatim>\<open>meta:user-defined\<close> element named \<^verbatim>\<open>__proto__\<close>: it has a name and the text
  \<^verbatim>\<open>x\<close>, and no value type, so it passes the guard of line 170 and reaches the assignment of
  line 183. The returned record is the empty one: \<^verbatim>\<open>customProperties\<close> is not attached.
\<close>

theorem user_defined_named_proto_is_not_attached:
  "getElementsByTagName (Inr odfProtoDoc) ''cp:coreProperties'' = []
   \<and> getElementsByTagName (Inr odfProtoDoc) ''meta:user-defined'' =
       [Element ''meta:user-defined'' [(''meta:name'', ''__proto__'')] [TextNode ''x'']]
   \<and> getAttribute (Element ''meta:user-defined'' [(''meta:name'', ''__proto__'')] [TextNode ''x''])
       ''meta:name'' = Some ''__proto__''
   \<and> getAttribute (Element ''meta:user-defined'' [(''meta:name'', ''__proto__'')] [TextNode ''x''])
       ''meta:value-type'' = None
   \<and> textContent (Element ''meta:user-defined'' [(''meta:name'', ''__proto__'')] [TextNode ''x''])
       = ''x''
   \<and> parseOfficeMetadata (exampleHost odfProtoXml odfProtoDoc) odfProtoXml = Some emptyMetadata
   \<and> customProperties emptyMetadata = None"
proof -
  let ?h = "exampleHost odfProtoXml odfProtoDoc"
  let ?u = "Element ''meta:user-defined'' [(''meta:name'', ''__proto__'')] [TextNode ''x'']"
  let ?om = "Element ''office:meta''
      [(''xmlns:office'', ''urn:oasis:names:tc:opendocument:xmlns:office:1.0''),
       (''xmlns:meta'', ''urn:oasis:names:tc:opendocument:xmlns:meta:1.0'')] [?u]"
  have c: "getElementsByTagName (Inr odfProtoDoc) ''cp:coreProperties'' = []"
    and o: "getElementsByTagName (Inr odfProtoDoc) ''office:meta'' = [?om]"
    and u: "getElementsByTagName (Inr odfProtoDoc) ''meta:user-defined'' = [?u]"
    by (simp_all add: getElementsByTagName_def odfProtoDoc_def)
  have els: "getElementsByTagName (Inl ?om) ''meta:user-defined'' = [?u]"
    "getElementsByTagName (Inl ?om) ''dc:title'' = []"
    "getElementsByTagName (Inl ?om) ''dc:creator'' = []"
    "getElementsByTagName (Inl ?om) ''dc:description'' = []"
    "getElementsByTagName (Inl ?om) ''dc:subject'' = []"
    "getElementsByTagName (Inl ?om) ''meta:creation-date'' = []"
    "getElementsByTagName (Inl ?om) ''dc:date'' = []"
    by (simp_all add: getElementsByTagName_def)
  have step: "userDefinedStep ?h Map.empty ?u = Map.empty"
    by (simp add: userDefined_plain)
  have "officeMetaFields ?h ?om emptyMetadata = emptyMetadata"
    unfolding officeMetaFields_empty
    by (simp add: els step item0_def truthyText_def emptyMetadata_def)
  then have "parseOfficeMetadata ?h odfProtoXml = Some emptyMetadata"
    using parseOfficeMetadata_odf [OF parse_example [of odfProtoXml odfProtoDoc] c o]
    by simp
  then show ?thesis
    using c u by (simp add: emptyMetadata_def)
qed

end
